theory Spec2Isabelle
  imports Complex_Main "HOL-Library.AList"
begin

section \<open>The catalog query helpers of the HSC notebooks\<close>

text \<open>
  The notebooks define the helper functions \<^verbatim>\<open>checklegal\<close>, \<^verbatim>\<open>cat2url\<close>,
  \<^verbatim>\<open>hscmetadata\<close>, \<^verbatim>\<open>hscsearch\<close>, \<^verbatim>\<open>hsccone\<close> and their \<^verbatim>\<open>hcv\<close> siblings.
  Each is embedded below as a HOL function of the same name. A raised exception is the
  \<open>Inl\<close> branch of a sum, the HTTP requests a call issues are recorded in a log that
  the function returns, and a Python dictionary is an association list that keeps the
  insertion order.
\<close>

subsection \<open>Python strings\<close>

text \<open>
  A Python string is modelled as a list of characters of the ASCII range. The method
  \<^verbatim>\<open>str.lower\<close> maps the letters A to Z to a to z; \<^verbatim>\<open>str.strip\<close> removes
  leading and trailing white space, which in the ASCII range is the characters 9 to 13,
  28 to 31 and 32; \<^verbatim>\<open>sep.join(xs)\<close> concatenates with the separator between
  neighbours.
\<close>

definition lower_char :: "char \<Rightarrow> char" where
  "lower_char c =
     (case map_of (zip ''ABCDEFGHIJKLMNOPQRSTUVWXYZ'' ''abcdefghijklmnopqrstuvwxyz'') c of
        None \<Rightarrow> c
      | Some d \<Rightarrow> d)"

definition lower :: "string \<Rightarrow> string" where
  "lower s = map lower_char s"

definition isspace :: "char \<Rightarrow> bool" where
  "isspace c =
     (let n = (of_char c :: nat) in (9 \<le> n \<and> n \<le> 13) \<or> (28 \<le> n \<and> n \<le> 32))"

definition strip :: "string \<Rightarrow> string" where
  "strip s = rev (dropWhile isspace (rev (dropWhile isspace s)))"

fun join :: "string \<Rightarrow> string list \<Rightarrow> string" where
  "join sep [] = []"
| "join sep [x] = x"
| "join sep (x # y # ys) = x @ sep @ join sep (y # ys)"

subsection \<open>Exceptions\<close>

text \<open>
  Every validation failure of the helpers is a \<^verbatim>\<open>ValueError\<close> with a message. The
  other constructors are the exceptions of the libraries the helpers call:
  \<^verbatim>\<open>requests.get\<close> failing to connect, \<^verbatim>\<open>raise_for_status\<close> on an error
  status, the JSON decoder, subscripting and attribute access on a decoded value, and
  the table parser.
\<close>

datatype error =
    ValueError string
  | HTTPError nat
  | ConnectionError
  | JSONDecodeError
  | TypeError
  | KeyError string
  | AttributeError
  | ParserError

text \<open>
  The specification names the validation failures by kind. Each kind is the
  \<^verbatim>\<open>ValueError\<close> with the message the source raises at that place.
\<close>

definition MissingParameters :: error where
  "MissingParameters = ValueError ''You must specify some parameters for search''"

definition UnsupportedFormat :: error where
  "UnsupportedFormat = ValueError ''Bad value for format''"

definition UnknownColumn :: "string list \<Rightarrow> error" where
  "UnknownColumn badcols =
     ValueError (''Some columns not found in table: '' @ join '', '' badcols)"

definition InvalidCombination :: "error \<Rightarrow> bool" where
  "InvalidCombination e \<longleftrightarrow>
     e \<in> set
       [ValueError ''Bad value for release (must be one of v2, v3)'',
        ValueError ''Bad value for table (for v2 must be one of summary, detailed)'',
        ValueError (''Bad value for table (for v3 must be one of summary, detailed, ''
                    @ ''propermotions, sourcepositions, hcvsummary, hcv)''),
        ValueError ''Bad value for magtype (must be one of magaper2, magauto)'']"

subsection \<open>Legal combinations and the base URL\<close>

definition hscapiurl :: string where
  "hscapiurl = ''https://catalogs.mast.stsci.edu/api/v0.1/hsc''"

definition checklegal :: "string \<Rightarrow> string \<Rightarrow> string \<Rightarrow> error + unit" where
  "checklegal table release magtype =
     (let releaselist = [''v2'', ''v3''] in
      if release \<notin> set releaselist then
        Inl (ValueError (''Bad value for release (must be one of ''
                         @ join '', '' releaselist @ '')''))
      else
        let tablelist =
              (if release = ''v2'' then [''summary'', ''detailed'']
               else [''summary'', ''detailed'', ''propermotions'', ''sourcepositions'',
                     ''hcvsummary'', ''hcv''])
        in
        if table \<notin> set tablelist then
          Inl (ValueError (''Bad value for table (for '' @ release @ '' must be one of ''
                           @ join '', '' tablelist @ '')''))
        else if table = ''summary'' then
          (let magtypelist = [''magaper2'', ''magauto''] in
           if magtype \<notin> set magtypelist then
             Inl (ValueError (''Bad value for magtype (must be one of ''
                              @ join '', '' magtypelist @ '')''))
           else Inr ())
        else Inr ())"

definition cat2url :: "string \<Rightarrow> string \<Rightarrow> string \<Rightarrow> string \<Rightarrow> error + string" where
  "cat2url table release magtype baseurl =
     (case checklegal table release magtype of
        Inl e \<Rightarrow> Inl e
      | Inr _ \<Rightarrow>
          if table = ''summary'' then
            Inr (baseurl @ ''/'' @ release @ ''/'' @ table @ ''/'' @ magtype)
          else
            Inr (baseurl @ ''/'' @ release @ ''/'' @ table))"

text \<open>
  The legal set as the specification lists it: release v2 with the tables summary and
  detailed, release v3 with six tables, and a magnitude type of magaper2 or magauto
  where the table is summary.
\<close>

definition legal_combination :: "string \<Rightarrow> string \<Rightarrow> string \<Rightarrow> bool" where
  "legal_combination release table magtype \<longleftrightarrow>
     ((release = ''v2'' \<and> table \<in> set [''summary'', ''detailed'']) \<or>
      (release = ''v3'' \<and>
       table \<in> set [''summary'', ''detailed'', ''propermotions'', ''sourcepositions'',
                    ''hcvsummary'', ''hcv''])) \<and>
     (table = ''summary'' \<longrightarrow> magtype \<in> set [''magaper2'', ''magauto''])"

subsection \<open>Values, requests and the network\<close>

text \<open>
  A filter value is a string or a number. The helpers never compute with a filter
  value: they store it under its key and hand the dictionary to \<^verbatim>\<open>requests.get\<close>.
  A number is therefore modelled by the value it denotes, without rounding. A keyword
  dictionary is an association list; \<open>AList.update\<close> is Python's
  \<^verbatim>\<open>d[k] = v\<close>: it replaces the value of a key in place and appends a new key at
  the end.
\<close>

datatype pyval = PyStr string | PyFloat real | PyInt int

type_synonym pydict = "(string \<times> pyval) list"

record request =
  req_url :: string
  req_params :: pydict

record response =
  status_code :: nat
  resp_text :: string

datatype json =
    JNull
  | JBool bool
  | JNum real
  | JStr string
  | JArr "json list"
  | JObj "(string \<times> json) list"

text \<open>
  What lies outside the repository is a parameter of the model: the server and the
  connection (\<open>http\<close>, the reply to \<^verbatim>\<open>requests.get\<close>), the JSON decoder
  behind \<^verbatim>\<open>r.json()\<close>, and the table parser
  \<^verbatim>\<open>Table.from_pandas(pd.read_csv(StringIO(text)))\<close>. Each may raise an
  exception of its own library, which is the value \<open>None\<close>.
\<close>

record 't world =
  http :: "request \<Rightarrow> response option"
  json_loads :: "string \<Rightarrow> json option"
  read_csv :: "string \<Rightarrow> 't option"

text \<open>
  A helper that talks to the network is a function from the log of the requests issued
  so far to its outcome and the extended log. An exception ends the computation and
  keeps the log. The reply to a request is a function of the request alone.
\<close>

type_synonym 'a io = "request list \<Rightarrow> (error + 'a) \<times> request list"

definition return_io :: "'a \<Rightarrow> 'a io" where
  "return_io x = (\<lambda>lg. (Inr x, lg))"

definition raise :: "error \<Rightarrow> 'a io" where
  "raise e = (\<lambda>lg. (Inl e, lg))"

definition lift :: "error + 'a \<Rightarrow> 'a io" where
  "lift r = (\<lambda>lg. (r, lg))"

definition bind_io :: "'a io \<Rightarrow> ('a \<Rightarrow> 'b io) \<Rightarrow> 'b io" where
  "bind_io m f =
     (\<lambda>lg. case m lg of
               (Inl e, lg') \<Rightarrow> (Inl e, lg')
             | (Inr x, lg') \<Rightarrow> f x lg')"

definition requests_get :: "'t world \<Rightarrow> string \<Rightarrow> pydict \<Rightarrow> response io" where
  "requests_get w url params =
     (\<lambda>lg. let req = \<lparr>req_url = url, req_params = params\<rparr>
            in (case http w req of None \<Rightarrow> Inl ConnectionError | Some r \<Rightarrow> Inr r,
                lg @ [req]))"

definition r_json :: "'t world \<Rightarrow> response \<Rightarrow> error + json" where
  "r_json w r =
     (case json_loads w (resp_text r) of None \<Rightarrow> Inl JSONDecodeError | Some v \<Rightarrow> Inr v)"

definition table_from_csv :: "'t world \<Rightarrow> string \<Rightarrow> error + 't" where
  "table_from_csv w body =
     (case read_csv w body of None \<Rightarrow> Inl ParserError | Some t \<Rightarrow> Inr t)"

definition raise_for_status :: "response \<Rightarrow> error + unit" where
  "raise_for_status r =
     (if 400 \<le> status_code r \<and> status_code r < 600 then Inl (HTTPError (status_code r))
      else Inr ())"

subsection \<open>Metadata\<close>

text \<open>
  \<^verbatim>\<open>[(x['name'], x['type'], x['description']) for x in v]\<close> iterates over the
  decoded value and subscripts each element. Iterating over a JSON object yields its
  keys and over a string its characters; a number, a boolean and null are not iterable.
  Only an object can be subscripted by a string, and a missing key is a
  \<^verbatim>\<open>KeyError\<close>. The table built from the rows is modelled by the list of the
  rows, and its column \<^verbatim>\<open>name\<close> by the first components.
\<close>

fun py_iter :: "json \<Rightarrow> error + json list" where
  "py_iter (JArr xs) = Inr xs"
| "py_iter (JObj kvs) = Inr (map (\<lambda>kv. JStr (fst kv)) kvs)"
| "py_iter (JStr s) = Inr (map (\<lambda>c. JStr [c]) s)"
| "py_iter _ = Inl TypeError"

fun getitem :: "json \<Rightarrow> string \<Rightarrow> error + json" where
  "getitem (JObj kvs) k = (case map_of kvs k of None \<Rightarrow> Inl (KeyError k) | Some v \<Rightarrow> Inr v)"
| "getitem _ k = Inl TypeError"

type_synonym metadata_row = "json \<times> json \<times> json"

definition metadata_row :: "json \<Rightarrow> error + metadata_row" where
  "metadata_row x =
     (case getitem x ''name'' of
        Inl e \<Rightarrow> Inl e
      | Inr n \<Rightarrow>
          (case getitem x ''type'' of
             Inl e \<Rightarrow> Inl e
           | Inr t \<Rightarrow>
               (case getitem x ''description'' of
                  Inl e \<Rightarrow> Inl e
                | Inr d \<Rightarrow> Inr (n, t, d))))"

fun metadata_rows :: "json list \<Rightarrow> error + metadata_row list" where
  "metadata_rows [] = Inr []"
| "metadata_rows (x # xs) =
     (case metadata_row x of
        Inl e \<Rightarrow> Inl e
      | Inr r \<Rightarrow>
          (case metadata_rows xs of
             Inl e \<Rightarrow> Inl e
           | Inr rs \<Rightarrow> Inr (r # rs)))"

definition metadata_table :: "json \<Rightarrow> error + metadata_row list" where
  "metadata_table v =
     (case py_iter v of Inl e \<Rightarrow> Inl e | Inr xs \<Rightarrow> metadata_rows xs)"

definition hscmetadata ::
  "'t world \<Rightarrow> string \<Rightarrow> string \<Rightarrow> string \<Rightarrow> string \<Rightarrow> metadata_row list io" where
  "hscmetadata w table release magtype baseurl =
     bind_io (lift (cat2url table release magtype baseurl)) (\<lambda>base.
     let url = base @ ''/metadata'' in
     bind_io (requests_get w url []) (\<lambda>r.
     bind_io (lift (raise_for_status r)) (\<lambda>_.
     bind_io (lift (r_json w r)) (\<lambda>v.
     lift (metadata_table v)))))"

definition hcvmetadata ::
  "'t world \<Rightarrow> string \<Rightarrow> string \<Rightarrow> string \<Rightarrow> string \<Rightarrow> metadata_row list io" where
  "hcvmetadata w table release magtype baseurl =
     bind_io (lift (cat2url table release magtype baseurl)) (\<lambda>base.
     let url = base @ ''/metadata'' in
     bind_io (requests_get w url []) (\<lambda>r.
     bind_io (lift (raise_for_status r)) (\<lambda>_.
     bind_io (lift (r_json w r)) (\<lambda>v.
     lift (metadata_table v)))))"

subsection \<open>Search\<close>

text \<open>
  The loop over the metadata names fills the dictionary \<^verbatim>\<open>dcols\<close> with the
  lowercased names; only its keys are used, so it is the list of keys. A name that is
  not a string has no method \<^verbatim>\<open>lower\<close>. The loop over the requested columns
  collects in \<^verbatim>\<open>badcols\<close> those whose lowercased and stripped form is not a key.
\<close>

fun py_lower :: "json \<Rightarrow> error + string" where
  "py_lower (JStr s) = Inr (lower s)"
| "py_lower _ = Inl AttributeError"

fun dcols_of :: "json list \<Rightarrow> error + string list" where
  "dcols_of [] = Inr []"
| "dcols_of (col # cols) =
     (case py_lower col of
        Inl e \<Rightarrow> Inl e
      | Inr k \<Rightarrow>
          (case dcols_of cols of
             Inl e \<Rightarrow> Inl e
           | Inr ks \<Rightarrow> Inr (k # ks)))"

definition badcols_of :: "string list \<Rightarrow> string list \<Rightarrow> string list" where
  "badcols_of dcols columns = filter (\<lambda>col. strip (lower col) \<notin> set dcols) columns"

text \<open>
  \<^verbatim>\<open>if columns:\<close> is false for \<^verbatim>\<open>None\<close> and for the empty list.
\<close>

fun truthy :: "string list option \<Rightarrow> bool" where
  "truthy None = False"
| "truthy (Some cols) = (cols \<noteq> [])"

datatype 't result = JsonResult json | TableResult 't | TextResult string

text \<open>
  The parameter \<^verbatim>\<open>verbose\<close> only prints the URL of the reply and is left out.
  The metadata helper is called with three arguments, so its base URL is the default
  \<open>hscapiurl\<close>, not the \<^verbatim>\<open>baseurl\<close> of the search.
\<close>

definition hscsearch ::
  "'t world \<Rightarrow> string \<Rightarrow> string \<Rightarrow> string \<Rightarrow> string \<Rightarrow> string list option \<Rightarrow> string \<Rightarrow>
   pydict \<Rightarrow> 't result io" where
  "hscsearch w table release magtype format columns baseurl kw =
     (let data = kw in
      if data = [] then raise (ValueError ''You must specify some parameters for search'')
      else if format \<notin> set [''csv'', ''votable'', ''json'', ''table''] then
        raise (ValueError ''Bad value for format'')
      else
        let rformat = (if format = ''table'' then ''csv'' else format) in
        bind_io (lift (cat2url table release magtype baseurl)) (\<lambda>base.
        let url = base @ ''.'' @ rformat in
        bind_io
          (if truthy columns then
             bind_io (hscmetadata w table release magtype hscapiurl) (\<lambda>tab.
             bind_io (lift (dcols_of (map fst tab))) (\<lambda>dcols.
             let badcols = badcols_of dcols (the columns) in
             if badcols \<noteq> [] then
               raise (ValueError (''Some columns not found in table: ''
                                  @ join '', '' badcols))
             else
               return_io
                 (AList.update ''columns''
                    (PyStr (''['' @ join '','' (the columns) @ '']'')) data)))
           else return_io data)
          (\<lambda>data.
        bind_io (requests_get w url data) (\<lambda>r.
        bind_io (lift (raise_for_status r)) (\<lambda>_.
        if format = ''json'' then
          bind_io (lift (r_json w r)) (\<lambda>j. return_io (JsonResult j))
        else if format = ''table'' then
          bind_io (lift (table_from_csv w (resp_text r))) (\<lambda>t. return_io (TableResult t))
        else return_io (TextResult (resp_text r)))))))"

definition hcvsearch ::
  "'t world \<Rightarrow> string \<Rightarrow> string \<Rightarrow> string \<Rightarrow> string \<Rightarrow> string list option \<Rightarrow> string \<Rightarrow>
   pydict \<Rightarrow> 't result io" where
  "hcvsearch w table release magtype format columns baseurl kw =
     (let data = kw in
      if data = [] then raise (ValueError ''You must specify some parameters for search'')
      else if format \<notin> set [''csv'', ''votable'', ''json''] then
        raise (ValueError ''Bad value for format'')
      else
        bind_io (lift (cat2url table release magtype baseurl)) (\<lambda>base.
        let url = base @ ''.'' @ format in
        bind_io
          (if truthy columns then
             bind_io (hcvmetadata w table release magtype hscapiurl) (\<lambda>tab.
             bind_io (lift (dcols_of (map fst tab))) (\<lambda>dcols.
             let badcols = badcols_of dcols (the columns) in
             if badcols \<noteq> [] then
               raise (ValueError (''Some columns not found in table: ''
                                  @ join '', '' badcols))
             else
               return_io
                 (AList.update ''columns''
                    (PyStr (''['' @ join '','' (the columns) @ '']'')) data)))
           else return_io data)
          (\<lambda>data.
        bind_io (requests_get w url data) (\<lambda>r.
        bind_io (lift (raise_for_status r)) (\<lambda>_.
        if format = ''json'' then
          bind_io (lift (r_json w r)) (\<lambda>j. return_io (JsonResult j))
        else return_io (TextResult (resp_text r)))))))"

subsection \<open>Cone search\<close>

text \<open>
  The cone searches copy their keyword dictionary and assign three keys of the copy.
  Whether the dictionary bound to \<^verbatim>\<open>kw\<close> changes depends on which object is
  assigned to, so the dictionaries live in a store, a list of dictionaries indexed by
  address. \<^verbatim>\<open>d.copy()\<close> allocates a new dictionary with the same entries, and
  \<^verbatim>\<open>d[k] = v\<close> updates the dictionary at the address of \<^verbatim>\<open>d\<close>. The call
  \<^verbatim>\<open>hscsearch(..., **data)\<close> passes the entries of the dictionary, not its address.

  \<^verbatim>\<open>ra\<close>, \<^verbatim>\<open>dec\<close> and \<^verbatim>\<open>radius\<close> are parameters of the cone searches
  and every call gives them by position. A call that also supplies one of them as a
  keyword raises \<^verbatim>\<open>TypeError\<close> (multiple values for the argument) before the body
  runs: no dictionary is copied and no request is issued.
\<close>

type_synonym addr = nat

type_synonym store = "pydict list"

definition dict_copy :: "store \<Rightarrow> addr \<Rightarrow> store \<times> addr" where
  "dict_copy s a = (s @ [s ! a], length s)"

definition dict_setitem :: "store \<Rightarrow> addr \<Rightarrow> string \<Rightarrow> pyval \<Rightarrow> store" where
  "dict_setitem s a k v = s[a := AList.update k v (s ! a)]"

definition hsccone ::
  "'t world \<Rightarrow> store \<Rightarrow> addr \<Rightarrow> pyval \<Rightarrow> pyval \<Rightarrow> pyval \<Rightarrow> string \<Rightarrow> string \<Rightarrow> string \<Rightarrow>
   string \<Rightarrow> string list option \<Rightarrow> string \<Rightarrow> 't result io \<times> store" where
  "hsccone w s kw ra dec radius table release format magtype columns baseurl =
     (if ''ra'' \<in> set (map fst (s ! kw)) \<or> ''dec'' \<in> set (map fst (s ! kw)) \<or>
         ''radius'' \<in> set (map fst (s ! kw))
      then (raise TypeError, s)
      else
        let (s, data) = dict_copy s kw;
            s = dict_setitem s data ''ra'' ra;
            s = dict_setitem s data ''dec'' dec;
            s = dict_setitem s data ''radius'' radius
        in (hscsearch w table release magtype format columns baseurl (s ! data), s))"

definition hcvcone ::
  "'t world \<Rightarrow> store \<Rightarrow> addr \<Rightarrow> pyval \<Rightarrow> pyval \<Rightarrow> pyval \<Rightarrow> string \<Rightarrow> string \<Rightarrow> string \<Rightarrow>
   string \<Rightarrow> string list option \<Rightarrow> string \<Rightarrow> 't result io \<times> store" where
  "hcvcone w s kw ra dec radius table release format magtype columns baseurl =
     (if ''ra'' \<in> set (map fst (s ! kw)) \<or> ''dec'' \<in> set (map fst (s ! kw)) \<or>
         ''radius'' \<in> set (map fst (s ! kw))
      then (raise TypeError, s)
      else
        let (s, data) = dict_copy s kw;
            s = dict_setitem s data ''ra'' ra;
            s = dict_setitem s data ''dec'' dec;
            s = dict_setitem s data ''radius'' radius
        in (hcvsearch w table release magtype format columns baseurl (s ! data), s))"

subsection \<open>A concrete world\<close>

text \<open>
  A server that answers every request with status 200 and a three-line body, a decoder
  that yields the metadata of two columns, and a parser that counts the data lines.
\<close>

definition example_metadata :: json where
  "example_metadata =
     JArr [JObj [(''name'', JStr ''MatchID''), (''type'', JStr ''long''),
                 (''description'', JStr ''identifier of the match'')],
           JObj [(''name'', JStr ''MatchRA''), (''type'', JStr ''float''),
                 (''description'', JStr ''right ascension of the match'')]]"

definition example_world :: "nat world" where
  "example_world =
     \<lparr>http = (\<lambda>req. Some \<lparr>status_code = 200, resp_text = ''MatchID;1;2''\<rparr>),
      json_loads = (\<lambda>body. Some example_metadata),
      read_csv = (\<lambda>body. Some (count_list body CHR '';''))\<rparr>"

section \<open>Properties\<close>

subsection \<open>The request monad\<close>

lemma bind_io_raise [simp]: "bind_io (raise e) f = raise e"
  by (simp add: bind_io_def raise_def)

lemma bind_io_return [simp]: "bind_io (return_io x) f = f x"
  by (simp add: bind_io_def return_io_def)

lemma bind_io_lift_Inl [simp]: "bind_io (lift (Inl e)) f = raise e"
  by (simp add: bind_io_def lift_def raise_def)

lemma bind_io_lift_Inr [simp]: "bind_io (lift (Inr x)) f = f x"
  by (simp add: bind_io_def lift_def)

lemma bind_io_apply_Inl: "m lg = (Inl e, lg') \<Longrightarrow> bind_io m f lg = (Inl e, lg')"
  by (simp add: bind_io_def)

lemma bind_io_apply_Inr: "m lg = (Inr x, lg') \<Longrightarrow> bind_io m f lg = f x lg'"
  by (simp add: bind_io_def)

subsection \<open>Python strings\<close>

lemma isspace_lower_char: "isspace (lower_char c) = isspace c"
  by (auto simp: lower_char_def isspace_def split: if_splits)

lemma dropWhile_isspace_lower:
  "dropWhile isspace (map lower_char s) = map lower_char (dropWhile isspace s)"
  by (induction s) (simp_all add: isspace_lower_char)

lemma strip_lower: "strip (lower s) = lower (strip s)"
  by (simp add: strip_def lower_def dropWhile_isspace_lower rev_map)

lemma matches_case_insensitively:
  assumes "\<forall>n \<in> set names. strip n = n"
    and "\<forall>col \<in> set cols. \<exists>n \<in> set names. lower col = lower n"
  shows "\<forall>col \<in> set cols. strip (lower col) \<in> set (map lower names)"
proof
  fix col
  assume "col \<in> set cols"
  with assms(2) obtain n where n: "n \<in> set names" "lower col = lower n"
    by blast
  with assms(1) have "strip (lower col) = lower n"
    by (simp add: strip_lower)
  with n(1) show "strip (lower col) \<in> set (map lower names)"
    by simp
qed

subsection \<open>Legality\<close>

lemma checklegal_Inr_iff:
  "checklegal table release magtype = Inr () \<longleftrightarrow> legal_combination release table magtype"
  by (auto simp: checklegal_def legal_combination_def Let_def)

lemma checklegal_Inl: "checklegal table release magtype = Inl e \<Longrightarrow> InvalidCombination e"
  by (auto simp: checklegal_def InvalidCombination_def Let_def split: if_splits)

lemma cat2url_legal:
  "legal_combination release table magtype \<Longrightarrow>
   cat2url table release magtype base =
     Inr (if table = ''summary'' then base @ ''/'' @ release @ ''/'' @ table @ ''/'' @ magtype
          else base @ ''/'' @ release @ ''/'' @ table)"
  by (simp add: cat2url_def checklegal_Inr_iff [symmetric])

lemma cat2url_illegal:
  "\<not> legal_combination release table magtype \<Longrightarrow>
   \<exists>e. cat2url table release magtype base = Inl e \<and> InvalidCombination e"
proof -
  assume "\<not> legal_combination release table magtype"
  then have "checklegal table release magtype \<noteq> Inr ()"
    by (simp add: checklegal_Inr_iff)
  then obtain e where e: "checklegal table release magtype = Inl e"
    by (cases "checklegal table release magtype") auto
  then show ?thesis
    by (auto simp: cat2url_def dest: checklegal_Inl)
qed

lemma cat2url_Inr_legal:
  "cat2url table release magtype base = Inr u \<Longrightarrow> legal_combination release table magtype"
  using cat2url_illegal [of release table magtype base] by auto

lemma cat2url_Inl_illegal:
  "cat2url table release magtype base = Inl e \<Longrightarrow>
   \<not> legal_combination release table magtype \<and> InvalidCombination e"
  using cat2url_illegal [of release table magtype base] cat2url_legal [of release table magtype base]
  by auto

lemma InvalidCombination_ValueError: "InvalidCombination e \<Longrightarrow> \<exists>msg. e = ValueError msg"
  by (auto simp: InvalidCombination_def)

lemma not_InvalidCombination [simp]:
  "\<not> InvalidCombination MissingParameters"
  "\<not> InvalidCombination UnsupportedFormat"
  "\<not> InvalidCombination (UnknownColumn bad)"
  by (simp_all add: InvalidCombination_def MissingParameters_def UnsupportedFormat_def
      UnknownColumn_def)

lemma kinds_distinct [simp]:
  "MissingParameters \<noteq> UnsupportedFormat"
  "MissingParameters \<noteq> UnknownColumn bad"
  "UnsupportedFormat \<noteq> UnknownColumn bad"
  "UnsupportedFormat \<noteq> MissingParameters"
  "UnknownColumn bad \<noteq> MissingParameters"
  "UnknownColumn bad \<noteq> UnsupportedFormat"
  by (simp_all add: MissingParameters_def UnsupportedFormat_def UnknownColumn_def)

lemma validation_is_ValueError:
  "e = MissingParameters \<or> e = UnsupportedFormat \<or> InvalidCombination e \<or>
   e = UnknownColumn bad \<Longrightarrow> \<exists>msg. e = ValueError msg"
  by (auto simp: MissingParameters_def UnsupportedFormat_def UnknownColumn_def
      dest: InvalidCombination_ValueError)

subsection \<open>The metadata request\<close>

lemma hscmetadata_illegal:
  "cat2url table release magtype base = Inl e \<Longrightarrow>
   hscmetadata w table release magtype base = raise e"
  by (simp add: hscmetadata_def)

lemma hscmetadata_log:
  assumes "cat2url table release magtype base = Inr u"
  shows "snd (hscmetadata w table release magtype base lg) =
         lg @ [\<lparr>req_url = u @ ''/metadata'', req_params = []\<rparr>]"
  using assms
  by (simp add: hscmetadata_def bind_io_def requests_get_def lift_def Let_def
      split: option.splits sum.splits prod.splits)

lemma metadata_row_error:
  "metadata_row x = Inl e \<Longrightarrow> e = TypeError \<or> (\<exists>k. e = KeyError k)"
  by (cases x) (auto simp: metadata_row_def split: sum.splits option.splits)

lemma metadata_rows_error:
  "metadata_rows xs = Inl e \<Longrightarrow> e = TypeError \<or> (\<exists>k. e = KeyError k)"
  by (induction xs) (auto split: sum.splits dest: metadata_row_error)

lemma metadata_table_error:
  "metadata_table v = Inl e \<Longrightarrow> e = TypeError \<or> (\<exists>k. e = KeyError k)"
  by (cases v) (auto simp: metadata_table_def split: sum.splits dest: metadata_rows_error)

lemma hscmetadata_error:
  assumes "cat2url table release magtype base = Inr u"
    and "hscmetadata w table release magtype base lg = (Inl e, lg')"
  shows "e \<noteq> ValueError msg"
  using assms
  by (auto simp: hscmetadata_def bind_io_def requests_get_def lift_def Let_def r_json_def
      raise_for_status_def
      split: option.splits sum.splits prod.splits if_splits dest: metadata_table_error)

lemma dcols_of_error: "dcols_of cols = Inl e \<Longrightarrow> e = AttributeError"
proof (induction cols)
  case Nil
  then show ?case by simp
next
  case (Cons c cs)
  then show ?case by (cases c) (auto split: sum.splits)
qed

lemma dcols_of_strings: "dcols_of (map JStr names) = Inr (map lower names)"
  by (induction names) auto

lemma hcvmetadata_eq: "hcvmetadata = hscmetadata"
  by (intro ext) (simp add: hcvmetadata_def hscmetadata_def)

subsection \<open>The stages of a search\<close>

lemma hscsearch_no_filters:
  "hscsearch w table release magtype format columns baseurl [] = raise MissingParameters"
  by (simp add: hscsearch_def MissingParameters_def)

lemma hscsearch_bad_format:
  "kw \<noteq> [] \<Longrightarrow> format \<notin> set [''csv'', ''votable'', ''json'', ''table''] \<Longrightarrow>
   hscsearch w table release magtype format columns baseurl kw = raise UnsupportedFormat"
  by (simp add: hscsearch_def UnsupportedFormat_def)

lemma hscsearch_illegal:
  "kw \<noteq> [] \<Longrightarrow> format \<in> set [''csv'', ''votable'', ''json'', ''table''] \<Longrightarrow>
   cat2url table release magtype baseurl = Inl e \<Longrightarrow>
   hscsearch w table release magtype format columns baseurl kw = raise e"
  by (simp add: hscsearch_def)

lemma hscsearch_metadata_error:
  "kw \<noteq> [] \<Longrightarrow> format \<in> set [''csv'', ''votable'', ''json'', ''table''] \<Longrightarrow>
   cat2url table release magtype baseurl = Inr base \<Longrightarrow> truthy columns \<Longrightarrow>
   hscmetadata w table release magtype hscapiurl lg = (Inl e, lg1) \<Longrightarrow>
   hscsearch w table release magtype format columns baseurl kw lg = (Inl e, lg1)"
  by (simp add: hscsearch_def Let_def bind_io_apply_Inl)

lemma hscsearch_dcols_error:
  "kw \<noteq> [] \<Longrightarrow> format \<in> set [''csv'', ''votable'', ''json'', ''table''] \<Longrightarrow>
   cat2url table release magtype baseurl = Inr base \<Longrightarrow> truthy columns \<Longrightarrow>
   hscmetadata w table release magtype hscapiurl lg = (Inr tab, lg1) \<Longrightarrow>
   dcols_of (map fst tab) = Inl e \<Longrightarrow>
   hscsearch w table release magtype format columns baseurl kw lg = (Inl e, lg1)"
  by (simp add: hscsearch_def Let_def bind_io_apply_Inl bind_io_apply_Inr raise_def)

lemma hscsearch_badcols:
  "kw \<noteq> [] \<Longrightarrow> format \<in> set [''csv'', ''votable'', ''json'', ''table''] \<Longrightarrow>
   cat2url table release magtype baseurl = Inr base \<Longrightarrow> truthy columns \<Longrightarrow>
   hscmetadata w table release magtype hscapiurl lg = (Inr tab, lg1) \<Longrightarrow>
   dcols_of (map fst tab) = Inr dcols \<Longrightarrow> badcols_of dcols (the columns) \<noteq> [] \<Longrightarrow>
   hscsearch w table release magtype format columns baseurl kw lg =
     (Inl (UnknownColumn (badcols_of dcols (the columns))), lg1)"
  by (simp add: hscsearch_def Let_def bind_io_apply_Inl bind_io_apply_Inr raise_def
      UnknownColumn_def)

lemma hscsearch_plain:
  assumes "kw \<noteq> []" and "format \<in> set [''csv'', ''votable'', ''json'', ''table'']"
    and "cat2url table release magtype baseurl = Inr base"
    and "\<not> truthy columns"
    and "req = \<lparr>req_url = base @ ''.'' @ (if format = ''table'' then ''csv'' else format),
                req_params = kw\<rparr>"
  shows "hscsearch w table release magtype format columns baseurl kw lg =
     (case http w req of
        None \<Rightarrow> Inl ConnectionError
      | Some r \<Rightarrow>
          (case raise_for_status r of
             Inl e \<Rightarrow> Inl e
           | Inr _ \<Rightarrow>
               if format = ''json'' then map_sum id JsonResult (r_json w r)
               else if format = ''table'' then
                 map_sum id TableResult (table_from_csv w (resp_text r))
               else Inr (TextResult (resp_text r))),
      lg @ [req])"
  using assms
  apply (simp only: hscsearch_def Let_def)
  apply (simp add: bind_io_def requests_get_def lift_def return_io_def
      split: option.splits sum.splits)
  done

lemma hscsearch_validated:
  assumes "kw \<noteq> []" and "format \<in> set [''csv'', ''votable'', ''json'', ''table'']"
    and "cat2url table release magtype baseurl = Inr base"
    and "truthy columns"
    and "hscmetadata w table release magtype hscapiurl lg = (Inr tab, lg1)"
    and "dcols_of (map fst tab) = Inr dcols"
    and "badcols_of dcols (the columns) = []"
  shows "hscsearch w table release magtype format columns baseurl kw lg =
         hscsearch w table release magtype format None baseurl
           (AList.update ''columns'' (PyStr (''['' @ join '','' (the columns) @ '']'')) kw) lg1"
  using assms
  apply (simp only: hscsearch_def Let_def)
  apply (simp add: bind_io_def requests_get_def lift_def return_io_def
      split: option.splits sum.splits)
  done

lemma hscsearch_plain_outcome:
  assumes "kw \<noteq> []" and "format \<in> set [''csv'', ''votable'', ''json'', ''table'']"
    and "cat2url table release magtype baseurl = Inr base"
    and "\<not> truthy columns"
  shows "fst (hscsearch w table release magtype format columns baseurl kw lg) \<noteq>
           Inl (ValueError msg)"
    and "snd (hscsearch w table release magtype format columns baseurl kw lg) =
           lg @ [\<lparr>req_url = base @ ''.'' @ (if format = ''table'' then ''csv'' else format),
                   req_params = kw\<rparr>]"
  using hscsearch_plain [OF assms refl, of w lg]
  by (auto simp: raise_for_status_def r_json_def table_from_csv_def
      split: option.splits sum.splits if_splits)

lemma hscsearch_unknown_columns:
  assumes kw: "kw \<noteq> []" and fmt: "format \<in> set [''csv'', ''votable'', ''json'', ''table'']"
    and base: "cat2url table release magtype baseurl = Inr base"
    and cols: "cols \<noteq> []"
    and m: "hscmetadata w table release magtype hscapiurl lg = (Inr tab, lg1)"
    and names: "map fst tab = map JStr names"
    and bad: "[col \<leftarrow> cols. strip (lower col) \<notin> set (map lower names)] \<noteq> []"
  shows "hscsearch w table release magtype format (Some cols) baseurl kw lg =
         (Inl (UnknownColumn [col \<leftarrow> cols. strip (lower col) \<notin> set (map lower names)]), lg1)"
proof -
  have d: "dcols_of (map fst tab) = Inr (map lower names)"
    by (simp add: names dcols_of_strings)
  have t: "truthy (Some cols)"
    using cols by simp
  have b: "badcols_of (map lower names) (the (Some cols)) \<noteq> []"
    using bad by (simp add: badcols_of_def)
  show ?thesis
    using hscsearch_badcols [OF kw fmt base t m d b] by (simp add: badcols_of_def)
qed

lemma hscsearch_known_columns:
  assumes kw: "kw \<noteq> []" and fmt: "format \<in> set [''csv'', ''votable'', ''json'', ''table'']"
    and base: "cat2url table release magtype baseurl = Inr base"
    and cols: "cols \<noteq> []"
    and m: "hscmetadata w table release magtype hscapiurl lg = (Inr tab, lg1)"
    and names: "map fst tab = map JStr names"
    and good: "[col \<leftarrow> cols. strip (lower col) \<notin> set (map lower names)] = []"
  shows "hscsearch w table release magtype format (Some cols) baseurl kw lg =
         hscsearch w table release magtype format None baseurl
           (AList.update ''columns'' (PyStr (''['' @ join '','' cols @ '']'')) kw) lg1"
proof -
  have d: "dcols_of (map fst tab) = Inr (map lower names)"
    by (simp add: names dcols_of_strings)
  have t: "truthy (Some cols)"
    using cols by simp
  have b: "badcols_of (map lower names) (the (Some cols)) = []"
    using good by (simp add: badcols_of_def)
  show ?thesis
    using hscsearch_validated [OF kw fmt base t m d b] by simp
qed

subsection \<open>Which stage raised a ValueError\<close>

lemma hscsearch_ValueError:
  assumes res: "hscsearch w table release magtype format columns baseurl kw lg =
                  (Inl (ValueError msg), lg')"
  shows "(kw = [] \<and> ValueError msg = MissingParameters \<and> lg' = lg) \<or>
         (kw \<noteq> [] \<and> format \<notin> set [''csv'', ''votable'', ''json'', ''table''] \<and>
          ValueError msg = UnsupportedFormat \<and> lg' = lg) \<or>
         (kw \<noteq> [] \<and> format \<in> set [''csv'', ''votable'', ''json'', ''table''] \<and>
          cat2url table release magtype baseurl = Inl (ValueError msg) \<and> lg' = lg) \<or>
         (kw \<noteq> [] \<and> format \<in> set [''csv'', ''votable'', ''json'', ''table''] \<and>
          truthy columns \<and>
          (\<exists>base tab dcols.
             cat2url table release magtype baseurl = Inr base \<and>
             hscmetadata w table release magtype hscapiurl lg = (Inr tab, lg') \<and>
             dcols_of (map fst tab) = Inr dcols \<and>
             badcols_of dcols (the columns) \<noteq> [] \<and>
             ValueError msg = UnknownColumn (badcols_of dcols (the columns))))"
proof (cases "kw = []")
  case True
  with res show ?thesis
    by (simp add: hscsearch_no_filters raise_def)
next
  case kw: False
  show ?thesis
  proof (cases "format \<in> set [''csv'', ''votable'', ''json'', ''table'']")
    case False
    with res kw show ?thesis
      using hscsearch_bad_format [of kw format w table release magtype columns baseurl]
      by (simp add: raise_def)
  next
    case fmt: True
    show ?thesis
    proof (cases "cat2url table release magtype baseurl")
      case (Inl e)
      with res kw fmt show ?thesis
        using hscsearch_illegal [OF kw fmt Inl, of w columns]
        by (simp add: raise_def)
    next
      case (Inr base)
      show ?thesis
      proof (cases "truthy columns")
        case False
        have "fst (hscsearch w table release magtype format columns baseurl kw lg) \<noteq>
                Inl (ValueError msg)"
          by (rule hscsearch_plain_outcome(1) [OF kw fmt Inr False])
        with res show ?thesis by simp
      next
        case cols: True
        obtain mres lg1 where m: "hscmetadata w table release magtype hscapiurl lg = (mres, lg1)"
          by (cases "hscmetadata w table release magtype hscapiurl lg")
        have legal: "legal_combination release table magtype"
          using Inr by (rule cat2url_Inr_legal)
        then obtain mbase where mbase: "cat2url table release magtype hscapiurl = Inr mbase"
          by (simp add: cat2url_legal)
        show ?thesis
        proof (cases mres)
          case (Inl e)
          with m have m': "hscmetadata w table release magtype hscapiurl lg = (Inl e, lg1)"
            by simp
          have "hscsearch w table release magtype format columns baseurl kw lg = (Inl e, lg1)"
            by (rule hscsearch_metadata_error [OF kw fmt Inr cols m'])
          moreover have "e \<noteq> ValueError msg"
            by (rule hscmetadata_error [OF mbase m'])
          ultimately show ?thesis using res by simp
        next
          case tab: (Inr tab)
          with m have m': "hscmetadata w table release magtype hscapiurl lg = (Inr tab, lg1)"
            by simp
          show ?thesis
          proof (cases "dcols_of (map fst tab)")
            case (Inl e)
            have "hscsearch w table release magtype format columns baseurl kw lg = (Inl e, lg1)"
              by (rule hscsearch_dcols_error [OF kw fmt Inr cols m' Inl])
            moreover have "e = AttributeError"
              using Inl by (rule dcols_of_error)
            ultimately show ?thesis using res by simp
          next
            case dcols: (Inr dcols)
            show ?thesis
            proof (cases "badcols_of dcols (the columns) = []")
              case False
              have "hscsearch w table release magtype format columns baseurl kw lg =
                (Inl (UnknownColumn (badcols_of dcols (the columns))), lg1)"
                by (rule hscsearch_badcols [OF kw fmt Inr cols m' dcols False])
              with res have "ValueError msg = UnknownColumn (badcols_of dcols (the columns))"
                and "lg' = lg1"
                by simp_all
              with kw fmt cols Inr m' dcols False show ?thesis
                by blast
            next
              case True
              have a: "hscsearch w table release magtype format columns baseurl kw lg =
                    hscsearch w table release magtype format None baseurl
                      (AList.update ''columns''
                         (PyStr (''['' @ join '','' (the columns) @ '']'')) kw) lg1"
                by (rule hscsearch_validated [OF kw fmt Inr cols m' dcols True])
              have b: "fst (hscsearch w table release magtype format None baseurl
                      (AList.update ''columns''
                         (PyStr (''['' @ join '','' (the columns) @ '']'')) kw) lg1) \<noteq>
                    Inl (ValueError msg)"
                by (rule hscsearch_plain_outcome(1) [OF _ fmt Inr]) simp_all
              have "fst (hscsearch w table release magtype format columns baseurl kw lg)
                    \<noteq> Inl (ValueError msg)"
                unfolding a by (rule b)
              then show ?thesis by (simp add: res)
            qed
          qed
        qed
      qed
    qed
  qed
qed

lemma hscsearch_validation_cases:
  assumes "hscsearch w table release magtype format columns baseurl kw lg = (Inl e, lg')"
    and "e = ValueError msg"
  shows "(kw = [] \<and> e = MissingParameters \<and> lg' = lg) \<or>
         (kw \<noteq> [] \<and> format \<notin> set [''csv'', ''votable'', ''json'', ''table''] \<and>
          e = UnsupportedFormat \<and> lg' = lg) \<or>
         (kw \<noteq> [] \<and> format \<in> set [''csv'', ''votable'', ''json'', ''table''] \<and>
          cat2url table release magtype baseurl = Inl e \<and> lg' = lg) \<or>
         (kw \<noteq> [] \<and> format \<in> set [''csv'', ''votable'', ''json'', ''table''] \<and>
          truthy columns \<and>
          (\<exists>base tab dcols.
             cat2url table release magtype baseurl = Inr base \<and>
             hscmetadata w table release magtype hscapiurl lg = (Inr tab, lg') \<and>
             dcols_of (map fst tab) = Inr dcols \<and>
             badcols_of dcols (the columns) \<noteq> [] \<and>
             e = UnknownColumn (badcols_of dcols (the columns))))"
  using assms(1) unfolding assms(2) by (rule hscsearch_ValueError)

lemma hscsearch_format_ok:
  assumes kw: "kw \<noteq> []" and fmt: "format \<in> set [''csv'', ''votable'', ''json'', ''table'']"
  shows "fst (hscsearch w table release magtype format columns baseurl kw lg) \<noteq>
           Inl UnsupportedFormat"
proof
  assume a: "fst (hscsearch w table release magtype format columns baseurl kw lg) =
               Inl UnsupportedFormat"
  then obtain lg' where res:
    "hscsearch w table release magtype format columns baseurl kw lg = (Inl UnsupportedFormat, lg')"
    by (cases "hscsearch w table release magtype format columns baseurl kw lg") simp
  have "UnsupportedFormat = ValueError ''Bad value for format''"
    by (simp add: UnsupportedFormat_def)
  note inv = hscsearch_validation_cases [OF res this]
  have "cat2url table release magtype baseurl \<noteq> Inl UnsupportedFormat"
    using cat2url_Inl_illegal [of table release magtype baseurl UnsupportedFormat] by auto
  with inv kw fmt show False
    by auto
qed

lemma hscsearch_validation_log:
  assumes res: "hscsearch w table release magtype format columns baseurl kw lg = (Inl e, lg')"
  shows "(e = MissingParameters \<or> e = UnsupportedFormat \<or> InvalidCombination e \<longrightarrow> lg' = lg) \<and>
         (\<forall>bad. e = UnknownColumn bad \<longrightarrow>
            (\<exists>mbase. cat2url table release magtype hscapiurl = Inr mbase \<and>
                     lg' = lg @ [\<lparr>req_url = mbase @ ''/metadata'', req_params = []\<rparr>]))"
proof (intro conjI allI impI)
  assume early: "e = MissingParameters \<or> e = UnsupportedFormat \<or> InvalidCombination e"
  then obtain msg where "e = ValueError msg"
    using validation_is_ValueError by blast
  note inv = hscsearch_validation_cases [OF res this]
  from early have "\<forall>bad. e \<noteq> UnknownColumn bad"
    by auto
  with inv show "lg' = lg"
    by blast
next
  fix bad
  assume bad: "e = UnknownColumn bad"
  then obtain msg where "e = ValueError msg"
    using validation_is_ValueError by blast
  note inv = hscsearch_validation_cases [OF res this]
  have "\<not> InvalidCombination e" "e \<noteq> MissingParameters" "e \<noteq> UnsupportedFormat"
    using bad by simp_all
  moreover from this have "cat2url table release magtype baseurl \<noteq> Inl e"
    using cat2url_Inl_illegal by blast
  ultimately obtain base tab where
    base: "cat2url table release magtype baseurl = Inr base" and
    m: "hscmetadata w table release magtype hscapiurl lg = (Inr tab, lg')"
    using inv by blast
  from base have "legal_combination release table magtype"
    by (rule cat2url_Inr_legal)
  then obtain mbase where mbase: "cat2url table release magtype hscapiurl = Inr mbase"
    by (simp add: cat2url_legal)
  have "lg' = lg @ [\<lparr>req_url = mbase @ ''/metadata'', req_params = []\<rparr>]"
    using hscmetadata_log [OF mbase, of w lg] m by simp
  with mbase show "\<exists>mbase. cat2url table release magtype hscapiurl = Inr mbase \<and>
                   lg' = lg @ [\<lparr>req_url = mbase @ ''/metadata'', req_params = []\<rparr>]"
    by blast
qed

subsection \<open>The table format and the sibling search\<close>

lemma hscsearch_table_eq:
  "hscsearch w table release magtype ''table'' columns baseurl kw lg =
     (case hscsearch w table release magtype ''csv'' columns baseurl kw lg of
        (Inl e, lg') \<Rightarrow> (Inl e, lg')
      | (Inr (TextResult body), lg') \<Rightarrow> (map_sum id TableResult (table_from_csv w body), lg')
      | (Inr v, lg') \<Rightarrow> (Inr v, lg'))"
  apply (simp only: hscsearch_def Let_def)
  apply (simp add: bind_io_def requests_get_def lift_def return_io_def raise_def
      split: option.splits sum.splits prod.splits)
  done

lemma hscsearch_csv_returns:
  assumes "hscsearch w table release magtype ''csv'' columns baseurl kw lg = (Inr v, lg')"
  shows "\<exists>base resp.
           cat2url table release magtype baseurl = Inr base \<and> lg' \<noteq> [] \<and>
           req_url (last lg') = base @ ''.csv'' \<and> http w (last lg') = Some resp \<and>
           v = TextResult (resp_text resp)"
  using assms
  apply (simp only: hscsearch_def Let_def)
  apply (auto simp: bind_io_def requests_get_def lift_def return_io_def raise_def Let_def
      split: option.splits sum.splits prod.splits if_splits)
  done

lemma hcvsearch_eq:
  "format \<noteq> ''table'' \<Longrightarrow>
   hcvsearch w table release magtype format columns baseurl kw =
   hscsearch w table release magtype format columns baseurl kw"
  by (simp add: hcvsearch_def hscsearch_def hcvmetadata_eq)

lemma hcvsearch_no_filters:
  "hcvsearch w table release magtype format columns baseurl [] = raise MissingParameters"
  by (simp add: hcvsearch_def MissingParameters_def)

lemma hcvsearch_table:
  "kw \<noteq> [] \<Longrightarrow>
   hcvsearch w table release magtype ''table'' columns baseurl kw = raise UnsupportedFormat"
  by (simp add: hcvsearch_def UnsupportedFormat_def)

lemma hcvsearch_validation_log:
  assumes res: "hcvsearch w table release magtype format columns baseurl kw lg = (Inl e, lg')"
  shows "(e = MissingParameters \<or> e = UnsupportedFormat \<or> InvalidCombination e \<longrightarrow> lg' = lg) \<and>
         (\<forall>bad. e = UnknownColumn bad \<longrightarrow>
            (\<exists>mbase. cat2url table release magtype hscapiurl = Inr mbase \<and>
                     lg' = lg @ [\<lparr>req_url = mbase @ ''/metadata'', req_params = []\<rparr>]))"
proof (cases "format = ''table''")
  case False
  with res have "hscsearch w table release magtype format columns baseurl kw lg = (Inl e, lg')"
    by (simp add: hcvsearch_eq)
  then show ?thesis
    by (rule hscsearch_validation_log)
next
  case True
  show ?thesis
  proof (cases "kw = []")
    case True
    with res show ?thesis
      by (auto simp: hcvsearch_no_filters raise_def)
  next
    case False
    with res \<open>format = ''table''\<close> show ?thesis
      by (auto simp: hcvsearch_table raise_def)
  qed
qed

subsection \<open>The store of a cone search\<close>

lemma cone_store:
  "dict_setitem
     (dict_setitem (dict_setitem (s @ [s ! kw]) (length s) ''ra'' ra) (length s) ''dec'' dec)
     (length s) ''radius'' radius =
   s @ [AList.update ''radius'' radius
          (AList.update ''dec'' dec (AList.update ''ra'' ra (s ! kw)))]"
  by (simp add: dict_setitem_def)

lemma update_new_key:
  "k \<notin> set (map fst al) \<Longrightarrow> AList.update k v al = al @ [(k, v)]"
  by (induction al) auto

lemma cone_data:
  assumes "''ra'' \<notin> set (map fst al)" and "''dec'' \<notin> set (map fst al)"
    and "''radius'' \<notin> set (map fst al)"
  shows "AList.update ''radius'' radius (AList.update ''dec'' dec (AList.update ''ra'' ra al)) =
         al @ [(''ra'', ra), (''dec'', dec), (''radius'', radius)]"
  using assms by (simp add: update_new_key)

lemma hsccone_eq:
  assumes "''ra'' \<notin> set (map fst (s ! kw))" and "''dec'' \<notin> set (map fst (s ! kw))"
    and "''radius'' \<notin> set (map fst (s ! kw))"
  shows "hsccone w s kw ra dec radius table release format magtype columns baseurl =
     (hscsearch w table release magtype format columns baseurl
        (AList.update ''radius'' radius
           (AList.update ''dec'' dec (AList.update ''ra'' ra (s ! kw)))),
      s @ [AList.update ''radius'' radius
             (AList.update ''dec'' dec (AList.update ''ra'' ra (s ! kw)))])"
  using assms by (simp add: hsccone_def dict_copy_def cone_store)

lemma hcvcone_eq:
  assumes "''ra'' \<notin> set (map fst (s ! kw))" and "''dec'' \<notin> set (map fst (s ! kw))"
    and "''radius'' \<notin> set (map fst (s ! kw))"
  shows "hcvcone w s kw ra dec radius table release format magtype columns baseurl =
     (hcvsearch w table release magtype format columns baseurl
        (AList.update ''radius'' radius
           (AList.update ''dec'' dec (AList.update ''ra'' ra (s ! kw)))),
      s @ [AList.update ''radius'' radius
             (AList.update ''dec'' dec (AList.update ''ra'' ra (s ! kw)))])"
  using assms by (simp add: hcvcone_def dict_copy_def cone_store)

lemma cone_TypeError:
  assumes "''ra'' \<in> set (map fst (s ! kw)) \<or> ''dec'' \<in> set (map fst (s ! kw)) \<or>
           ''radius'' \<in> set (map fst (s ! kw))"
  shows "hsccone w s kw ra dec radius table release format magtype columns baseurl =
           (raise TypeError, s)"
    and "hcvcone w s kw ra dec radius table release format magtype columns baseurl =
           (raise TypeError, s)"
  using assms by (simp_all add: hsccone_def hcvcone_def)

lemma hsccone_example_request:
  "snd (fst (hsccone w [[]] 0 (PyFloat 187.706) (PyFloat 12.391) (PyFloat (500 / 3600))
               ''summary'' ''v3'' ''csv'' ''magaper2'' None base) []) =
   [\<lparr>req_url = base @ ''/v3/summary/magaper2.csv'',
     req_params = [(''ra'', PyFloat 187.706), (''dec'', PyFloat 12.391),
                   (''radius'', PyFloat (500 / 3600))]\<rparr>]"
proof -
  have base: "cat2url ''summary'' ''v3'' ''magaper2'' base = Inr (base @ ''/v3/summary/magaper2'')"
    by (simp add: cat2url_def checklegal_def)
  have "snd (hscsearch w ''summary'' ''v3'' ''magaper2'' ''csv'' None base
          [(''ra'', PyFloat 187.706), (''dec'', PyFloat 12.391),
           (''radius'', PyFloat (500 / 3600))] []) =
        [] @ [\<lparr>req_url = (base @ ''/v3/summary/magaper2'') @ ''.'' @
                         (if ''csv'' = ''table'' then ''csv'' else ''csv''),
               req_params = [(''ra'', PyFloat 187.706), (''dec'', PyFloat 12.391),
                   (''radius'', PyFloat (500 / 3600))]\<rparr>]"
    by (rule hscsearch_plain_outcome(2) [OF _ _ base]) simp_all
  moreover
  have "hsccone w [[]] 0 (PyFloat 187.706) (PyFloat 12.391) (PyFloat (500 / 3600))
          ''summary'' ''v3'' ''csv'' ''magaper2'' None base =
        (hscsearch w ''summary'' ''v3'' ''magaper2'' ''csv'' None base
           [(''ra'', PyFloat 187.706), (''dec'', PyFloat 12.391),
            (''radius'', PyFloat (500 / 3600))],
         [[], [(''ra'', PyFloat 187.706), (''dec'', PyFloat 12.391),
               (''radius'', PyFloat (500 / 3600))]])"
    by (simp add: hsccone_eq)
  ultimately show ?thesis
    by simp
qed

subsection \<open>Runs in the concrete world\<close>

lemmas eval_defs =
  hscsearch_def hcvsearch_def hscmetadata_def hcvmetadata_def cat2url_def checklegal_def
  hscapiurl_def requests_get_def raise_for_status_def r_json_def table_from_csv_def
  example_world_def example_metadata_def metadata_table_def metadata_row_def badcols_of_def
  lower_def lower_char_def strip_def isspace_def raise_def return_io_def bind_io_def lift_def
  UnknownColumn_def MissingParameters_def UnsupportedFormat_def

lemma example_metadata_ok:
  "hscmetadata example_world ''summary'' ''v3'' ''magaper2'' hscapiurl [] =
     (Inr [(JStr ''MatchID'', JStr ''long'', JStr ''identifier of the match''),
           (JStr ''MatchRA'', JStr ''float'', JStr ''right ascension of the match'')],
      [\<lparr>req_url = ''https://catalogs.mast.stsci.edu/api/v0.1/hsc/v3/summary/magaper2/metadata'',
        req_params = []\<rparr>])"
  by (simp add: eval_defs)

lemma example_unknown_column:
  "hscsearch example_world ''summary'' ''v3'' ''magaper2'' ''csv'' (Some [''MatchId'', ''bogus''])
     hscapiurl [(''ra'', PyFloat 1)] [] =
   (Inl (UnknownColumn [''bogus'']),
    [\<lparr>req_url = ''https://catalogs.mast.stsci.edu/api/v0.1/hsc/v3/summary/magaper2/metadata'',
      req_params = []\<rparr>])"
  by (simp add: eval_defs)

section \<open>The claims\<close>

text \<open>
  C1. For every release, table and magnitude type in the legal set, \<open>cat2url\<close>
  returns the base, the release and the table joined by slashes, followed by the
  magnitude type where the table is summary; for every combination outside the set it
  returns no URL and fails with a \<^verbatim>\<open>ValueError\<close> of the kind InvalidCombination.
\<close>

theorem cat2url_legal_set:
  "(legal_combination release table magtype \<longrightarrow>
      cat2url table release magtype base =
        Inr (if table = ''summary''
             then base @ ''/'' @ release @ ''/'' @ table @ ''/'' @ magtype
             else base @ ''/'' @ release @ ''/'' @ table)) \<and>
   (\<not> legal_combination release table magtype \<longrightarrow>
      (\<exists>msg. cat2url table release magtype base = Inl (ValueError msg) \<and>
             InvalidCombination (ValueError msg)))"
proof (intro conjI impI)
  assume "legal_combination release table magtype"
  then show "cat2url table release magtype base =
        Inr (if table = ''summary''
             then base @ ''/'' @ release @ ''/'' @ table @ ''/'' @ magtype
             else base @ ''/'' @ release @ ''/'' @ table)"
    by (rule cat2url_legal)
next
  assume "\<not> legal_combination release table magtype"
  then obtain e where e: "cat2url table release magtype base = Inl e" "InvalidCombination e"
    using cat2url_illegal by blast
  then obtain msg where "e = ValueError msg"
    using InvalidCombination_ValueError by blast
  with e show "\<exists>msg. cat2url table release magtype base = Inl (ValueError msg) \<and>
             InvalidCombination (ValueError msg)"
    by blast
qed

theorem cat2url_legal_set_witness:
  "legal_combination ''v3'' ''summary'' ''magauto'' \<and>
   cat2url ''summary'' ''v3'' ''magauto'' ''B'' = Inr ''B/v3/summary/magauto'' \<and>
   legal_combination ''v3'' ''hcv'' ''magaper2'' \<and>
   cat2url ''hcv'' ''v3'' ''magaper2'' ''B'' = Inr ''B/v3/hcv'' \<and>
   \<not> legal_combination ''v2'' ''hcv'' ''magaper2'' \<and>
   (\<exists>msg. cat2url ''hcv'' ''v2'' ''magaper2'' ''B'' = Inl (ValueError msg) \<and>
          InvalidCombination (ValueError msg))"
proof -
  have 1: "legal_combination ''v3'' ''summary'' ''magauto''"
    by (simp add: legal_combination_def)
  have 2: "legal_combination ''v3'' ''hcv'' ''magaper2''"
    by (simp add: legal_combination_def)
  have 3: "\<not> legal_combination ''v2'' ''hcv'' ''magaper2''"
    by (simp add: legal_combination_def)
  show ?thesis
    using 1 2 3
      cat2url_legal_set [of "''v3''" "''summary''" "''magauto''" "''B''"]
      cat2url_legal_set [of "''v3''" "''hcv''" "''magaper2''" "''B''"]
      cat2url_legal_set [of "''v2''" "''hcv''" "''magaper2''" "''B''"]
    by simp
qed

text \<open>
  C2, as stated, fails: a search with a filter, a supported format, a legal combination
  and an unknown column raises UnknownColumn after the metadata request was issued.
\<close>

theorem validation_before_network_counterexample:
  "fst (hscsearch example_world ''summary'' ''v3'' ''magaper2'' ''csv''
          (Some [''MatchId'', ''bogus'']) hscapiurl [(''ra'', PyFloat 1)] []) =
     Inl (UnknownColumn [''bogus'']) \<and>
   snd (hscsearch example_world ''summary'' ''v3'' ''magaper2'' ''csv''
          (Some [''MatchId'', ''bogus'']) hscapiurl [(''ra'', PyFloat 1)] []) \<noteq> []"
  by (simp add: example_unknown_column)

text \<open>
  C2, amended. When a search fails with MissingParameters, UnsupportedFormat or
  InvalidCombination, it has issued no request. When it fails with UnknownColumn, it
  has issued exactly one request, the metadata request of the table under the default
  base URL, and not the search request.
\<close>

theorem validation_before_search_request:
  assumes "hscsearch w table release magtype format columns baseurl kw lg = (Inl e, lg') \<or>
           hcvsearch w table release magtype format columns baseurl kw lg = (Inl e, lg')"
  shows "(e = MissingParameters \<or> e = UnsupportedFormat \<or> InvalidCombination e \<longrightarrow> lg' = lg) \<and>
         (\<forall>bad. e = UnknownColumn bad \<longrightarrow>
            (\<exists>mbase. cat2url table release magtype hscapiurl = Inr mbase \<and>
                     lg' = lg @ [\<lparr>req_url = mbase @ ''/metadata'', req_params = []\<rparr>]))"
  using assms
proof
  assume "hscsearch w table release magtype format columns baseurl kw lg = (Inl e, lg')"
  then show ?thesis by (rule hscsearch_validation_log)
next
  assume "hcvsearch w table release magtype format columns baseurl kw lg = (Inl e, lg')"
  then show ?thesis by (rule hcvsearch_validation_log)
qed

theorem validation_before_search_request_witness:
  "hscsearch example_world ''summary'' ''v3'' ''magaper2'' ''csv''
     (Some [''MatchId'', ''bogus'']) hscapiurl [(''ra'', PyFloat 1)] [] =
     (Inl (UnknownColumn [''bogus'']),
      [\<lparr>req_url = ''https://catalogs.mast.stsci.edu/api/v0.1/hsc/v3/summary/magaper2/metadata'',
        req_params = []\<rparr>]) \<and>
   (\<exists>mbase. cat2url ''summary'' ''v3'' ''magaper2'' hscapiurl = Inr mbase \<and>
      [\<lparr>req_url = ''https://catalogs.mast.stsci.edu/api/v0.1/hsc/v3/summary/magaper2/metadata'',
        req_params = []\<rparr>] = [] @ [\<lparr>req_url = mbase @ ''/metadata'', req_params = []\<rparr>]) \<and>
   hcvsearch example_world ''hcv'' ''v2'' ''magaper2'' ''csv'' None hscapiurl
     [(''ra'', PyFloat 1)] [] =
     (Inl (ValueError ''Bad value for table (for v2 must be one of summary, detailed)''), []) \<and>
   InvalidCombination
     (ValueError ''Bad value for table (for v2 must be one of summary, detailed)'')"
proof -
  have a: "hscsearch example_world ''summary'' ''v3'' ''magaper2'' ''csv''
     (Some [''MatchId'', ''bogus'']) hscapiurl [(''ra'', PyFloat 1)] [] =
     (Inl (UnknownColumn [''bogus'']),
      [\<lparr>req_url = ''https://catalogs.mast.stsci.edu/api/v0.1/hsc/v3/summary/magaper2/metadata'',
        req_params = []\<rparr>])"
    by (rule example_unknown_column)
  have b: "hcvsearch example_world ''hcv'' ''v2'' ''magaper2'' ''csv'' None hscapiurl
     [(''ra'', PyFloat 1)] [] =
     (Inl (ValueError ''Bad value for table (for v2 must be one of summary, detailed)''), [])"
    by (simp add: eval_defs)
  have c: "InvalidCombination
     (ValueError ''Bad value for table (for v2 must be one of summary, detailed)'')"
    by (simp add: InvalidCombination_def)
  show ?thesis
    using a b c
      validation_before_search_request [OF disjI1 [OF a]]
      validation_before_search_request [OF disjI2 [OF b]]
    by (simp add: cat2url_def checklegal_def hscapiurl_def)
qed

text \<open>
  C3. A search with an empty filter dictionary fails with MissingParameters whatever
  the other arguments are, the column list included, and issues no request: the log is
  the one it started with.
\<close>

theorem search_no_filters:
  "hscsearch w table release magtype format columns baseurl [] lg =
     (Inl MissingParameters, lg) \<and>
   hcvsearch w table release magtype format columns baseurl [] lg =
     (Inl MissingParameters, lg) \<and>
   (\<exists>msg. MissingParameters = ValueError msg)"
  by (simp add: hscsearch_no_filters hcvsearch_no_filters raise_def MissingParameters_def)

text \<open>
  C4. Let a search reach the column check: it has a filter, a supported format, a legal
  combination, a non-empty column list, and the metadata request returned the column
  names. A requested column is invalid when its lowercased and stripped form is not
  the lowercased form of a metadata name. If some column is invalid, the search fails
  with UnknownColumn, a \<^verbatim>\<open>ValueError\<close> whose message lists exactly the invalid
  columns, all of them, in the order requested. If none is, no \<^verbatim>\<open>ValueError\<close> is
  raised and the search request is issued. In particular, where the metadata names
  have no surrounding white space, a column list whose every entry equals a metadata
  name up to the case of its letters passes the check.
\<close>

theorem column_validation:
  assumes "kw \<noteq> []" and "format \<in> set [''csv'', ''votable'', ''json'', ''table'']"
    and "cat2url table release magtype baseurl = Inr base"
    and "cols \<noteq> []"
    and "hscmetadata w table release magtype hscapiurl lg = (Inr tab, lg1)"
    and "map fst tab = map JStr names"
  shows "([col \<leftarrow> cols. strip (lower col) \<notin> set (map lower names)] \<noteq> [] \<longrightarrow>
            hscsearch w table release magtype format (Some cols) baseurl kw lg =
              (Inl (ValueError
                      (''Some columns not found in table: '' @
                       join '', '' [col \<leftarrow> cols. strip (lower col) \<notin> set (map lower names)])),
               lg1)) \<and>
         ((\<forall>col \<in> set cols. strip (lower col) \<in> set (map lower names)) \<longrightarrow>
            (\<forall>msg. fst (hscsearch w table release magtype format (Some cols) baseurl kw lg) \<noteq>
                     Inl (ValueError msg)) \<and>
            snd (hscsearch w table release magtype format (Some cols) baseurl kw lg) =
              lg1 @ [\<lparr>req_url = base @ ''.'' @ (if format = ''table'' then ''csv'' else format),
                      req_params =
                        AList.update ''columns'' (PyStr (''['' @ join '','' cols @ '']'')) kw\<rparr>]) \<and>
         ((\<forall>n \<in> set names. strip n = n) \<and>
          (\<forall>col \<in> set cols. \<exists>n \<in> set names. lower col = lower n) \<longrightarrow>
            (\<forall>msg. fst (hscsearch w table release magtype format (Some cols) baseurl kw lg) \<noteq>
                     Inl (ValueError msg)))"
proof -
  have passes:
    "fst (hscsearch w table release magtype format (Some cols) baseurl kw lg) \<noteq>
       Inl (ValueError msg) \<and>
     snd (hscsearch w table release magtype format (Some cols) baseurl kw lg) =
       lg1 @ [\<lparr>req_url = base @ ''.'' @ (if format = ''table'' then ''csv'' else format),
               req_params =
                 AList.update ''columns'' (PyStr (''['' @ join '','' cols @ '']'')) kw\<rparr>]"
    if valid: "\<forall>col \<in> set cols. strip (lower col) \<in> set (map lower names)" for msg
  proof -
    from valid have good: "[col \<leftarrow> cols. strip (lower col) \<notin> set (map lower names)] = []"
      by (simp add: filter_empty_conv)
    have "fst (hscsearch w table release magtype format (Some cols) baseurl kw lg) \<noteq>
            Inl (ValueError msg)"
      unfolding hscsearch_known_columns [OF assms good]
      by (rule hscsearch_plain_outcome(1) [OF _ assms(2,3)]) simp_all
    moreover
    have "snd (hscsearch w table release magtype format (Some cols) baseurl kw lg) =
            lg1 @ [\<lparr>req_url = base @ ''.'' @ (if format = ''table'' then ''csv'' else format),
                    req_params =
                      AList.update ''columns'' (PyStr (''['' @ join '','' cols @ '']'')) kw\<rparr>]"
      unfolding hscsearch_known_columns [OF assms good]
      by (rule hscsearch_plain_outcome(2) [OF _ assms(2,3)]) simp_all
    ultimately show ?thesis
      by (rule conjI)
  qed
  show ?thesis
  proof (intro conjI impI allI)
    assume "[col \<leftarrow> cols. strip (lower col) \<notin> set (map lower names)] \<noteq> []"
    then show "hscsearch w table release magtype format (Some cols) baseurl kw lg =
                (Inl (ValueError
                        (''Some columns not found in table: '' @
                         join '', '' [col \<leftarrow> cols. strip (lower col) \<notin> set (map lower names)])),
                 lg1)"
      using hscsearch_unknown_columns [OF assms] by (simp add: UnknownColumn_def)
  next
    fix msg
    assume "\<forall>col \<in> set cols. strip (lower col) \<in> set (map lower names)"
    then show "fst (hscsearch w table release magtype format (Some cols) baseurl kw lg) \<noteq>
            Inl (ValueError msg)"
      using passes by blast
  next
    assume "\<forall>col \<in> set cols. strip (lower col) \<in> set (map lower names)"
    then show "snd (hscsearch w table release magtype format (Some cols) baseurl kw lg) =
                lg1 @ [\<lparr>req_url = base @ ''.'' @ (if format = ''table'' then ''csv'' else format),
                        req_params =
                          AList.update ''columns'' (PyStr (''['' @ join '','' cols @ '']'')) kw\<rparr>]"
      using passes by blast
  next
    fix msg
    assume "(\<forall>n \<in> set names. strip n = n) \<and>
            (\<forall>col \<in> set cols. \<exists>n \<in> set names. lower col = lower n)"
    then have "\<forall>col \<in> set cols. strip (lower col) \<in> set (map lower names)"
      using matches_case_insensitively by blast
    then show "fst (hscsearch w table release magtype format (Some cols) baseurl kw lg) \<noteq>
            Inl (ValueError msg)"
      using passes by blast
  qed
qed

theorem column_validation_witness:
  "[(''ra'', PyFloat 1)] \<noteq> [] \<and>
   ''json'' \<in> set [''csv'', ''votable'', ''json'', ''table''] \<and>
   cat2url ''summary'' ''v3'' ''magaper2'' ''B'' = Inr ''B/v3/summary/magaper2'' \<and>
   hscsearch example_world ''summary'' ''v3'' ''magaper2'' ''json''
     (Some [''MatchId'', ''bogus'', '' nope '']) ''B'' [(''ra'', PyFloat 1)] [] =
     (Inl (ValueError ''Some columns not found in table: bogus,  nope ''),
      [\<lparr>req_url = ''https://catalogs.mast.stsci.edu/api/v0.1/hsc/v3/summary/magaper2/metadata'',
        req_params = []\<rparr>]) \<and>
   (\<forall>msg. fst (hscsearch example_world ''summary'' ''v3'' ''magaper2'' ''json''
                 (Some [''MatchId'']) ''B'' [(''ra'', PyFloat 1)] []) \<noteq> Inl (ValueError msg)) \<and>
   snd (hscsearch example_world ''summary'' ''v3'' ''magaper2'' ''json''
          (Some [''MatchId'']) ''B'' [(''ra'', PyFloat 1)] []) =
     [\<lparr>req_url = ''https://catalogs.mast.stsci.edu/api/v0.1/hsc/v3/summary/magaper2/metadata'',
       req_params = []\<rparr>,
      \<lparr>req_url = ''B/v3/summary/magaper2.json'',
       req_params = [(''ra'', PyFloat 1), (''columns'', PyStr ''[MatchId]'')]\<rparr>] \<and>
   (strip ''MatchID'' = ''MatchID'' \<and> strip ''MatchRA'' = ''MatchRA'') \<and>
   lower ''MatchId'' = lower ''MatchID'' \<and>
   fst (hscsearch example_world ''summary'' ''v3'' ''magaper2'' ''json''
          (Some [''MatchId'']) ''B'' [(''ra'', PyFloat 1)] []) \<noteq>
     Inl (ValueError ''Some columns not found in table: MatchId'')"
proof -
  have kw: "[(''ra'', PyFloat 1)] \<noteq> []"
    by simp
  have fmt: "''json'' \<in> set [''csv'', ''votable'', ''json'', ''table'']"
    by simp
  have base: "cat2url ''summary'' ''v3'' ''magaper2'' ''B'' = Inr ''B/v3/summary/magaper2''"
    by (simp add: cat2url_def checklegal_def)
  have names: "map fst [(JStr ''MatchID'', JStr ''long'', JStr ''identifier of the match''),
           (JStr ''MatchRA'', JStr ''float'', JStr ''right ascension of the match'')] =
        map JStr [''MatchID'', ''MatchRA'']"
    by simp
  have 1: "[''MatchId'', ''bogus'', '' nope ''] \<noteq> []" and 2: "[''MatchId''] \<noteq> []"
    by simp_all
  have bad: "[col \<leftarrow> [''MatchId'', ''bogus'', '' nope ''].
             strip (lower col) \<notin> set (map lower [''MatchID'', ''MatchRA''])] =
             [''bogus'', '' nope '']"
    by (simp add: lower_def lower_char_def strip_def isspace_def)
  have good: "\<forall>col \<in> set [''MatchId'']. strip (lower col) \<in> set (map lower [''MatchID'', ''MatchRA''])"
    by (simp add: lower_def lower_char_def strip_def isspace_def)
  have a: "hscsearch example_world ''summary'' ''v3'' ''magaper2'' ''json''
     (Some [''MatchId'', ''bogus'', '' nope '']) ''B'' [(''ra'', PyFloat 1)] [] =
     (Inl (ValueError ''Some columns not found in table: bogus,  nope ''),
      [\<lparr>req_url = ''https://catalogs.mast.stsci.edu/api/v0.1/hsc/v3/summary/magaper2/metadata'',
        req_params = []\<rparr>])"
    using column_validation [OF kw fmt base 1 example_metadata_ok names, THEN conjunct1,
        unfolded bad]
    by simp
  note s = column_validation [OF kw fmt base 2 example_metadata_ok names, THEN conjunct2,
      THEN conjunct1, THEN mp, OF good]
  note b = s [THEN conjunct1]
  from s have c: "snd (hscsearch example_world ''summary'' ''v3'' ''magaper2'' ''json''
          (Some [''MatchId'']) ''B'' [(''ra'', PyFloat 1)] []) =
     [\<lparr>req_url = ''https://catalogs.mast.stsci.edu/api/v0.1/hsc/v3/summary/magaper2/metadata'',
       req_params = []\<rparr>,
      \<lparr>req_url = ''B/v3/summary/magaper2.json'',
       req_params = [(''ra'', PyFloat 1), (''columns'', PyStr ''[MatchId]'')]\<rparr>]"
    by simp
  have clean: "strip ''MatchID'' = ''MatchID'' \<and> strip ''MatchRA'' = ''MatchRA''"
    by (simp add: strip_def isspace_def)
  have same: "lower ''MatchId'' = lower ''MatchID''"
    by (simp add: lower_def lower_char_def)
  have d: "fst (hscsearch example_world ''summary'' ''v3'' ''magaper2'' ''json''
                 (Some [''MatchId'']) ''B'' [(''ra'', PyFloat 1)] []) \<noteq>
           Inl (ValueError ''Some columns not found in table: MatchId'')"
    using clean same
      column_validation [OF kw fmt base 2 example_metadata_ok names, THEN conjunct2,
        THEN conjunct2]
    by simp
  from kw fmt base a b c clean same d show ?thesis
    by blast
qed

text \<open>
  C5. A search of \<open>hscsearch\<close> with the format table is the same search with the
  format csv, followed by the table parser on the text that search returns: the same
  requests are issued, an error of the csv search is the error of the table search, and a
  returned text becomes the table parsed from it. So whenever the table search returns,
  its last request went to the URL with the suffix csv, and the value returned is the
  table that the parser yields on the raw body of the reply to that request. The two are
  the same table, so they have the same number of rows.
\<close>

theorem table_format_parses_csv:
  "hscsearch w table release magtype ''table'' columns baseurl kw lg =
     (case hscsearch w table release magtype ''csv'' columns baseurl kw lg of
        (Inl e, lg') \<Rightarrow> (Inl e, lg')
      | (Inr (TextResult body), lg') \<Rightarrow> (map_sum id TableResult (table_from_csv w body), lg')
      | (Inr v, lg') \<Rightarrow> (Inr v, lg')) \<and>
   (\<forall>v lg'. hscsearch w table release magtype ''table'' columns baseurl kw lg = (Inr v, lg') \<longrightarrow>
      (\<exists>base resp tab.
         cat2url table release magtype baseurl = Inr base \<and> lg' \<noteq> [] \<and>
         req_url (last lg') = base @ ''.csv'' \<and> http w (last lg') = Some resp \<and>
         read_csv w (resp_text resp) = Some tab \<and> v = TableResult tab))"
proof (intro conjI allI impI)
  show "hscsearch w table release magtype ''table'' columns baseurl kw lg =
     (case hscsearch w table release magtype ''csv'' columns baseurl kw lg of
        (Inl e, lg') \<Rightarrow> (Inl e, lg')
      | (Inr (TextResult body), lg') \<Rightarrow> (map_sum id TableResult (table_from_csv w body), lg')
      | (Inr v, lg') \<Rightarrow> (Inr v, lg'))"
    by (rule hscsearch_table_eq)
next
  fix v lg'
  assume res: "hscsearch w table release magtype ''table'' columns baseurl kw lg = (Inr v, lg')"
  obtain r0 lg0 where csv:
    "hscsearch w table release magtype ''csv'' columns baseurl kw lg = (r0, lg0)"
    by (cases "hscsearch w table release magtype ''csv'' columns baseurl kw lg")
  show "\<exists>base resp tab.
         cat2url table release magtype baseurl = Inr base \<and> lg' \<noteq> [] \<and>
         req_url (last lg') = base @ ''.csv'' \<and> http w (last lg') = Some resp \<and>
         read_csv w (resp_text resp) = Some tab \<and> v = TableResult tab"
  proof (cases r0)
    case (Inl e)
    with res csv show ?thesis
      by (simp add: hscsearch_table_eq)
  next
    case (Inr v0)
    with csv obtain base resp where
      base: "cat2url table release magtype baseurl = Inr base" and
      lg0: "lg0 \<noteq> []" "req_url (last lg0) = base @ ''.csv''" "http w (last lg0) = Some resp" and
      v0: "v0 = TextResult (resp_text resp)"
      using hscsearch_csv_returns [of w table release magtype columns baseurl kw lg v0 lg0]
      by auto
    from res csv Inr v0 have
      "(map_sum id TableResult (table_from_csv w (resp_text resp)), lg0) = (Inr v, lg')"
      by (simp add: hscsearch_table_eq)
    then obtain tab where "read_csv w (resp_text resp) = Some tab" "v = TableResult tab" "lg' = lg0"
      by (auto simp: table_from_csv_def split: option.splits)
    with base lg0 show ?thesis
      by blast
  qed
qed

theorem table_format_parses_csv_witness:
  "hscsearch example_world ''summary'' ''v3'' ''magaper2'' ''table'' None ''B''
     [(''ra'', PyFloat 1)] [] =
     (Inr (TableResult 2),
      [\<lparr>req_url = ''B/v3/summary/magaper2.csv'', req_params = [(''ra'', PyFloat 1)]\<rparr>]) \<and>
   http example_world
     \<lparr>req_url = ''B/v3/summary/magaper2.csv'', req_params = [(''ra'', PyFloat 1)]\<rparr> =
     Some \<lparr>status_code = 200, resp_text = ''MatchID;1;2''\<rparr> \<and>
   read_csv example_world ''MatchID;1;2'' = Some 2 \<and>
   (\<exists>base resp tab.
      cat2url ''summary'' ''v3'' ''magaper2'' ''B'' = Inr base \<and>
      req_url (last [\<lparr>req_url = ''B/v3/summary/magaper2.csv'',
                      req_params = [(''ra'', PyFloat 1)]\<rparr>]) = base @ ''.csv'' \<and>
      http example_world
        (last [\<lparr>req_url = ''B/v3/summary/magaper2.csv'',
                req_params = [(''ra'', PyFloat 1)]\<rparr>]) = Some resp \<and>
      read_csv example_world (resp_text resp) = Some tab \<and>
      TableResult (2::nat) = TableResult tab)"
proof -
  have csv: "hscsearch example_world ''summary'' ''v3'' ''magaper2'' ''csv'' None ''B''
     [(''ra'', PyFloat 1)] [] =
     (Inr (TextResult ''MatchID;1;2''),
      [\<lparr>req_url = ''B/v3/summary/magaper2.csv'', req_params = [(''ra'', PyFloat 1)]\<rparr>])"
    by (simp add: eval_defs)
  have tab: "table_from_csv example_world ''MatchID;1;2'' = Inr 2"
    by (simp add: table_from_csv_def example_world_def)
  have "hscsearch example_world ''summary'' ''v3'' ''magaper2'' ''table'' None ''B''
     [(''ra'', PyFloat 1)] [] =
     (Inr (TableResult 2),
      [\<lparr>req_url = ''B/v3/summary/magaper2.csv'', req_params = [(''ra'', PyFloat 1)]\<rparr>])"
    using table_format_parses_csv [of example_world "''summary''" "''v3''" "''magaper2''" None
        "''B''" "[(''ra'', PyFloat 1)]" "[]", THEN conjunct1]
    by (simp add: csv tab)
  then show ?thesis
    using table_format_parses_csv [of example_world "''summary''" "''v3''" "''magaper2''" None
        "''B''" "[(''ra'', PyFloat 1)]" "[]", THEN conjunct2]
    by (simp add: example_world_def)
qed

text \<open>
  C6, as stated, fails: \<open>hcvsearch\<close> does not accept the format table. With a filter
  and a legal combination it fails with UnsupportedFormat.
\<close>

theorem format_enumeration_counterexample:
  "hcvsearch example_world ''hcvsummary'' ''v3'' ''magaper2'' ''table'' None hscapiurl
     [(''ra'', PyFloat 1)] [] = (Inl UnsupportedFormat, [])"
  by (simp add: hcvsearch_table raise_def)

text \<open>
  C6, amended. With at least one filter, a format outside csv, votable, json and table
  makes both searches fail with UnsupportedFormat before any request. \<open>hscsearch\<close>
  passes the format check for each of the four formats; \<open>hcvsearch\<close> passes it for
  csv, votable and json, and rejects table with UnsupportedFormat before any request.
\<close>

theorem format_enumeration:
  assumes "kw \<noteq> []"
  shows "(format \<notin> set [''csv'', ''votable'', ''json'', ''table''] \<longrightarrow>
            hscsearch w table release magtype format columns baseurl kw lg =
              (Inl UnsupportedFormat, lg) \<and>
            hcvsearch w table release magtype format columns baseurl kw lg =
              (Inl UnsupportedFormat, lg)) \<and>
         (format \<in> set [''csv'', ''votable'', ''json'', ''table''] \<longrightarrow>
            fst (hscsearch w table release magtype format columns baseurl kw lg) \<noteq>
              Inl UnsupportedFormat) \<and>
         (format \<in> set [''csv'', ''votable'', ''json''] \<longrightarrow>
            fst (hcvsearch w table release magtype format columns baseurl kw lg) \<noteq>
              Inl UnsupportedFormat) \<and>
         hcvsearch w table release magtype ''table'' columns baseurl kw lg =
           (Inl UnsupportedFormat, lg) \<and>
         (\<exists>msg. UnsupportedFormat = ValueError msg)"
proof (intro conjI impI)
  assume bad: "format \<notin> set [''csv'', ''votable'', ''json'', ''table'']"
  show "hscsearch w table release magtype format columns baseurl kw lg =
          (Inl UnsupportedFormat, lg)"
    by (simp add: hscsearch_bad_format [OF assms bad] raise_def)
  from bad have "format \<noteq> ''table''"
    by auto
  then show "hcvsearch w table release magtype format columns baseurl kw lg =
          (Inl UnsupportedFormat, lg)"
    by (simp add: hcvsearch_eq hscsearch_bad_format [OF assms bad] raise_def)
next
  assume "format \<in> set [''csv'', ''votable'', ''json'', ''table'']"
  with assms show "fst (hscsearch w table release magtype format columns baseurl kw lg) \<noteq>
              Inl UnsupportedFormat"
    by (rule hscsearch_format_ok)
next
  assume ok: "format \<in> set [''csv'', ''votable'', ''json'']"
  then have "format \<noteq> ''table''" and "format \<in> set [''csv'', ''votable'', ''json'', ''table'']"
    by auto
  then show "fst (hcvsearch w table release magtype format columns baseurl kw lg) \<noteq>
              Inl UnsupportedFormat"
    using hscsearch_format_ok [OF assms, of format] by (simp add: hcvsearch_eq)
next
  show "hcvsearch w table release magtype ''table'' columns baseurl kw lg =
           (Inl UnsupportedFormat, lg)"
    using assms by (simp add: hcvsearch_table raise_def)
next
  show "\<exists>msg. UnsupportedFormat = ValueError msg"
    by (simp add: UnsupportedFormat_def)
qed

theorem format_enumeration_witness:
  "[(''ra'', PyFloat 1)] \<noteq> [] \<and>
   ''xml'' \<notin> set [''csv'', ''votable'', ''json'', ''table''] \<and>
   hscsearch example_world ''summary'' ''v3'' ''magaper2'' ''xml'' None hscapiurl
     [(''ra'', PyFloat 1)] [] = (Inl UnsupportedFormat, []) \<and>
   hcvsearch example_world ''summary'' ''v3'' ''magaper2'' ''xml'' None hscapiurl
     [(''ra'', PyFloat 1)] [] = (Inl UnsupportedFormat, []) \<and>
   ''votable'' \<in> set [''csv'', ''votable'', ''json''] \<and>
   fst (hscsearch example_world ''summary'' ''v3'' ''magaper2'' ''votable'' None hscapiurl
     [(''ra'', PyFloat 1)] []) \<noteq> Inl UnsupportedFormat \<and>
   fst (hcvsearch example_world ''summary'' ''v3'' ''magaper2'' ''votable'' None hscapiurl
     [(''ra'', PyFloat 1)] []) \<noteq> Inl UnsupportedFormat"
proof -
  have kw: "[(''ra'', PyFloat 1)] \<noteq> []"
    by simp
  show ?thesis
    using kw
      format_enumeration [OF kw, of "''xml''" example_world "''summary''" "''v3''" "''magaper2''"
        None hscapiurl "[]"]
      format_enumeration [OF kw, of "''votable''" example_world "''summary''" "''v3''"
        "''magaper2''" None hscapiurl "[]"]
    by simp
qed

text \<open>
  C7, as stated, fails: the radius is passed on as it was given. The value 500/3600 is
  not 0.1389, and no rounding takes place.
\<close>

theorem cone_search_example_counterexample:
  "map_of (req_params (last (snd (fst
      (hsccone example_world [[]] 0 (PyFloat 187.706) (PyFloat 12.391) (PyFloat (500 / 3600))
         ''summary'' ''v3'' ''csv'' ''magaper2'' None hscapiurl) [])))) ''radius'' \<noteq>
   Some (PyFloat 0.1389)"
  unfolding hsccone_example_request by simp

text \<open>
  C7, amended. The cone search at 187.706, 12.391 with radius 500/3600, table summary,
  release v3 and the defaults (format csv, magnitude type magaper2, no columns, no
  further filters) issues one request. Its URL is the base followed by
  \<^verbatim>\<open>/v3/summary/magaper2.csv\<close>, and its parameters are ra = 187.706, dec = 12.391
  and radius = 500/3600, the value given, in this order.
\<close>

theorem cone_search_example:
  "snd (fst (hsccone w [[]] 0 (PyFloat 187.706) (PyFloat 12.391) (PyFloat (500 / 3600))
               ''summary'' ''v3'' ''csv'' ''magaper2'' None base) []) =
   [\<lparr>req_url = base @ ''/v3/summary/magaper2.csv'',
     req_params = [(''ra'', PyFloat 187.706), (''dec'', PyFloat 12.391),
                   (''radius'', PyFloat (500 / 3600))]\<rparr>]"
  by (rule hsccone_example_request)

text \<open>
  C8. The validation failures of \<open>hscsearch\<close> are reported in a fixed order: an empty
  filter dictionary gives MissingParameters whatever else is wrong; otherwise an
  unsupported format gives UnsupportedFormat; otherwise an illegal combination gives
  InvalidCombination; otherwise, with a column list and the metadata fetched, unknown
  columns give UnknownColumn. Conversely each later failure means that the earlier
  checks passed.
\<close>

theorem validation_order:
  "(kw = [] \<longrightarrow>
      hscsearch w table release magtype format columns baseurl kw lg =
        (Inl MissingParameters, lg)) \<and>
   (kw \<noteq> [] \<and> format \<notin> set [''csv'', ''votable'', ''json'', ''table''] \<longrightarrow>
      hscsearch w table release magtype format columns baseurl kw lg =
        (Inl UnsupportedFormat, lg)) \<and>
   (kw \<noteq> [] \<and> format \<in> set [''csv'', ''votable'', ''json'', ''table''] \<and>
    \<not> legal_combination release table magtype \<longrightarrow>
      (\<exists>e. hscsearch w table release magtype format columns baseurl kw lg = (Inl e, lg) \<and>
           InvalidCombination e)) \<and>
   (kw \<noteq> [] \<and> format \<in> set [''csv'', ''votable'', ''json'', ''table''] \<and>
    legal_combination release table magtype \<and> columns = Some cols \<and> cols \<noteq> [] \<and>
    hscmetadata w table release magtype hscapiurl lg = (Inr tab, lg1) \<and>
    map fst tab = map JStr names \<and>
    [col \<leftarrow> cols. strip (lower col) \<notin> set (map lower names)] \<noteq> [] \<longrightarrow>
      hscsearch w table release magtype format columns baseurl kw lg =
        (Inl (UnknownColumn [col \<leftarrow> cols. strip (lower col) \<notin> set (map lower names)]),
         lg1)) \<and>
   (fst (hscsearch w table release magtype format columns baseurl kw lg) =
      Inl UnsupportedFormat \<longrightarrow> kw \<noteq> []) \<and>
   (InvalidCombination e \<and>
    fst (hscsearch w table release magtype format columns baseurl kw lg) = Inl e \<longrightarrow>
      kw \<noteq> [] \<and> format \<in> set [''csv'', ''votable'', ''json'', ''table'']) \<and>
   (fst (hscsearch w table release magtype format columns baseurl kw lg) =
      Inl (UnknownColumn bad) \<longrightarrow>
      kw \<noteq> [] \<and> format \<in> set [''csv'', ''votable'', ''json'', ''table''] \<and>
      legal_combination release table magtype)"
proof (intro conjI impI; (elim conjE)?)
  assume "kw = []"
  then show "hscsearch w table release magtype format columns baseurl kw lg =
        (Inl MissingParameters, lg)"
    by (simp add: hscsearch_no_filters raise_def)
next
  assume "kw \<noteq> []" and "format \<notin> set [''csv'', ''votable'', ''json'', ''table'']"
  then show "hscsearch w table release magtype format columns baseurl kw lg =
        (Inl UnsupportedFormat, lg)"
    by (simp add: hscsearch_bad_format raise_def)
next
  assume kw: "kw \<noteq> []" and fmt: "format \<in> set [''csv'', ''votable'', ''json'', ''table'']"
    and "\<not> legal_combination release table magtype"
  then obtain e where e: "cat2url table release magtype baseurl = Inl e" "InvalidCombination e"
    using cat2url_illegal by blast
  have "hscsearch w table release magtype format columns baseurl kw lg = (Inl e, lg)"
    by (simp add: hscsearch_illegal [OF kw fmt e(1)] raise_def)
  with e(2) show "\<exists>e. hscsearch w table release magtype format columns baseurl kw lg =
      (Inl e, lg) \<and> InvalidCombination e"
    by blast
next
  assume kw: "kw \<noteq> []" and fmt: "format \<in> set [''csv'', ''votable'', ''json'', ''table'']"
    and legal: "legal_combination release table magtype"
    and columns: "columns = Some cols" and cols: "cols \<noteq> []"
    and m: "hscmetadata w table release magtype hscapiurl lg = (Inr tab, lg1)"
    and names: "map fst tab = map JStr names"
    and bad: "[col \<leftarrow> cols. strip (lower col) \<notin> set (map lower names)] \<noteq> []"
  from legal obtain base where base: "cat2url table release magtype baseurl = Inr base"
    by (simp add: cat2url_legal)
  show "hscsearch w table release magtype format columns baseurl kw lg =
        (Inl (UnknownColumn [col \<leftarrow> cols. strip (lower col) \<notin> set (map lower names)]), lg1)"
    unfolding columns by (rule hscsearch_unknown_columns [OF kw fmt base cols m names bad])
next
  assume "fst (hscsearch w table release magtype format columns baseurl kw lg) =
      Inl UnsupportedFormat"
  then show "kw \<noteq> []"
    by (auto simp: hscsearch_no_filters raise_def)
next
  assume inv: "InvalidCombination e"
    and res: "fst (hscsearch w table release magtype format columns baseurl kw lg) = Inl e"
  show kw: "kw \<noteq> []"
    using inv res by (auto simp: hscsearch_no_filters raise_def)
  show "format \<in> set [''csv'', ''votable'', ''json'', ''table'']"
  proof (rule ccontr)
    assume "format \<notin> set [''csv'', ''votable'', ''json'', ''table'']"
    with kw
    have "hscsearch w table release magtype format columns baseurl kw lg =
            (Inl UnsupportedFormat, lg)"
      by (simp add: hscsearch_bad_format raise_def)
    with inv res show False
      by auto
  qed
next
  assume res: "fst (hscsearch w table release magtype format columns baseurl kw lg) =
      Inl (UnknownColumn bad)"
  show kw: "kw \<noteq> []"
    using res by (auto simp: hscsearch_no_filters raise_def)
  show fmt: "format \<in> set [''csv'', ''votable'', ''json'', ''table'']"
  proof (rule ccontr)
    assume "format \<notin> set [''csv'', ''votable'', ''json'', ''table'']"
    with kw
    have "hscsearch w table release magtype format columns baseurl kw lg =
            (Inl UnsupportedFormat, lg)"
      by (simp add: hscsearch_bad_format raise_def)
    with res show False
      by simp
  qed
  show "legal_combination release table magtype"
  proof (rule ccontr)
    assume "\<not> legal_combination release table magtype"
    then obtain e where e: "cat2url table release magtype baseurl = Inl e" "InvalidCombination e"
      using cat2url_illegal by blast
    have "hscsearch w table release magtype format columns baseurl kw lg = (Inl e, lg)"
      by (simp add: hscsearch_illegal [OF kw fmt e(1)] raise_def)
    with res e(2) show False
      by auto
  qed
qed

theorem validation_order_witness:
  "hscsearch example_world ''hcv'' ''v2'' ''magaper2'' ''xml'' (Some [''bogus'']) hscapiurl
     [] [] = (Inl MissingParameters, []) \<and>
   hscsearch example_world ''hcv'' ''v2'' ''magaper2'' ''xml'' (Some [''bogus'']) hscapiurl
     [(''ra'', PyFloat 1)] [] = (Inl UnsupportedFormat, []) \<and>
   \<not> legal_combination ''v2'' ''hcv'' ''magaper2'' \<and>
   (\<exists>e. hscsearch example_world ''hcv'' ''v2'' ''magaper2'' ''csv'' (Some [''bogus''])
          hscapiurl [(''ra'', PyFloat 1)] [] = (Inl e, []) \<and> InvalidCombination e) \<and>
   legal_combination ''v3'' ''summary'' ''magaper2'' \<and>
   hscsearch example_world ''summary'' ''v3'' ''magaper2'' ''csv''
     (Some [''MatchId'', ''bogus'']) hscapiurl [(''ra'', PyFloat 1)] [] =
     (Inl (UnknownColumn [''bogus'']),
      [\<lparr>req_url = ''https://catalogs.mast.stsci.edu/api/v0.1/hsc/v3/summary/magaper2/metadata'',
        req_params = []\<rparr>])"
proof -
  have 1: "\<not> legal_combination ''v2'' ''hcv'' ''magaper2''"
    by (simp add: legal_combination_def)
  have 2: "legal_combination ''v3'' ''summary'' ''magaper2''"
    by (simp add: legal_combination_def)
  have 3: "[col \<leftarrow> [''MatchId'', ''bogus''].
             strip (lower col) \<notin> set (map lower [''MatchID'', ''MatchRA''])] = [''bogus'']"
    by (simp add: lower_def lower_char_def strip_def isspace_def)
  have a: "hscsearch example_world ''hcv'' ''v2'' ''magaper2'' ''xml'' (Some [''bogus''])
             hscapiurl [] [] = (Inl MissingParameters, [])"
    using validation_order [where kw = "[]" and w = example_world and table = "''hcv''"
        and release = "''v2''" and magtype = "''magaper2''" and format = "''xml''"
        and columns = "Some [''bogus'']" and baseurl = hscapiurl and lg = "[]",
        THEN conjunct1]
    by simp
  have b: "hscsearch example_world ''hcv'' ''v2'' ''magaper2'' ''xml'' (Some [''bogus''])
             hscapiurl [(''ra'', PyFloat 1)] [] = (Inl UnsupportedFormat, [])"
    using validation_order [where kw = "[(''ra'', PyFloat 1)]" and w = example_world
        and table = "''hcv''" and release = "''v2''" and magtype = "''magaper2''"
        and format = "''xml''" and columns = "Some [''bogus'']" and baseurl = hscapiurl
        and lg = "[]", THEN conjunct2, THEN conjunct1]
    by simp
  have c: "\<exists>e. hscsearch example_world ''hcv'' ''v2'' ''magaper2'' ''csv'' (Some [''bogus''])
          hscapiurl [(''ra'', PyFloat 1)] [] = (Inl e, []) \<and> InvalidCombination e"
    using 1 validation_order [where kw = "[(''ra'', PyFloat 1)]" and w = example_world
        and table = "''hcv''" and release = "''v2''" and magtype = "''magaper2''"
        and format = "''csv''" and columns = "Some [''bogus'']" and baseurl = hscapiurl
        and lg = "[]", THEN conjunct2, THEN conjunct2, THEN conjunct1]
    by simp
  have d: "hscsearch example_world ''summary'' ''v3'' ''magaper2'' ''csv''
     (Some [''MatchId'', ''bogus'']) hscapiurl [(''ra'', PyFloat 1)] [] =
     (Inl (UnknownColumn [''bogus'']),
      [\<lparr>req_url = ''https://catalogs.mast.stsci.edu/api/v0.1/hsc/v3/summary/magaper2/metadata'',
        req_params = []\<rparr>])"
    using 2 3 example_metadata_ok
      validation_order [where kw = "[(''ra'', PyFloat 1)]" and w = example_world
        and table = "''summary''" and release = "''v3''" and magtype = "''magaper2''"
        and format = "''csv''" and columns = "Some [''MatchId'', ''bogus'']"
        and baseurl = hscapiurl and lg = "[]" and cols = "[''MatchId'', ''bogus'']"
        and names = "[''MatchID'', ''MatchRA'']"
        and tab = "[(JStr ''MatchID'', JStr ''long'', JStr ''identifier of the match''),
           (JStr ''MatchRA'', JStr ''float'', JStr ''right ascension of the match'')]"
        and ?lg1.0 = "[\<lparr>req_url = ''https://catalogs.mast.stsci.edu/api/v0.1/hsc/v3/summary/magaper2/metadata'',
        req_params = []\<rparr>]", THEN conjunct2, THEN conjunct2, THEN conjunct2, THEN conjunct1]
    by simp
  from a b 1 c 2 d show ?thesis
    by (intro conjI)
qed

text \<open>
  C9, as stated, fails: a cone search whose keywords hold the key ra does not overwrite
  the entry and delegates nothing. The call raises \<^verbatim>\<open>TypeError\<close> before the body
  runs, with no request issued and the store as it was.
\<close>

theorem cone_search_overwrites_counterexample:
  "fst (hsccone example_world [[(''ra'', PyFloat 99)]] 0 (PyFloat 10) (PyFloat 20) (PyFloat 1)
          ''summary'' ''v3'' ''csv'' ''magaper2'' None hscapiurl) [] = (Inl TypeError, []) \<and>
   snd (hsccone example_world [[(''ra'', PyFloat 99)]] 0 (PyFloat 10) (PyFloat 20) (PyFloat 1)
          ''summary'' ''v3'' ''csv'' ''magaper2'' None hscapiurl) = [[(''ra'', PyFloat 99)]]"
  by (simp add: hsccone_def raise_def)

text \<open>
  C9, amended. A cone search whose keywords hold none of the keys ra, dec and radius
  copies the dictionary bound to \<^verbatim>\<open>kw\<close> and assigns the three keys of the copy.
  The filters it hands to the search are the keyword entries followed by the entries
  for ra, dec and radius, that is, the keyword mapping updated with these three. The
  dictionary at the address of \<^verbatim>\<open>kw\<close> is the same after the call, and so is every
  dictionary that was in the store before. A cone search whose keywords hold one of the
  three keys raises \<^verbatim>\<open>TypeError\<close>, hands nothing to the search and leaves the
  store as it was.
\<close>

theorem cone_search_extends_filters:
  assumes "kw < length s"
  shows "(''ra'' \<notin> set (map fst (s ! kw)) \<and> ''dec'' \<notin> set (map fst (s ! kw)) \<and>
          ''radius'' \<notin> set (map fst (s ! kw)) \<longrightarrow>
            (let data = s ! kw @ [(''ra'', ra), (''dec'', dec), (''radius'', radius)]
             in hsccone w s kw ra dec radius table release format magtype columns baseurl =
                  (hscsearch w table release magtype format columns baseurl data, s @ [data]) \<and>
                hcvcone w s kw ra dec radius table release format magtype columns baseurl =
                  (hcvsearch w table release magtype format columns baseurl data, s @ [data]) \<and>
                data = AList.update ''radius'' radius
                         (AList.update ''dec'' dec (AList.update ''ra'' ra (s ! kw))) \<and>
                map_of data =
                  (map_of (s ! kw))(''ra'' \<mapsto> ra, ''dec'' \<mapsto> dec, ''radius'' \<mapsto> radius)) \<and>
            snd (hsccone w s kw ra dec radius table release format magtype columns baseurl) ! kw =
              s ! kw \<and>
            snd (hcvcone w s kw ra dec radius table release format magtype columns baseurl) ! kw =
              s ! kw \<and>
            take (length s)
              (snd (hsccone w s kw ra dec radius table release format magtype columns baseurl)) =
              s \<and>
            take (length s)
              (snd (hcvcone w s kw ra dec radius table release format magtype columns baseurl)) =
              s) \<and>
         (''ra'' \<in> set (map fst (s ! kw)) \<or> ''dec'' \<in> set (map fst (s ! kw)) \<or>
          ''radius'' \<in> set (map fst (s ! kw)) \<longrightarrow>
            hsccone w s kw ra dec radius table release format magtype columns baseurl =
              (raise TypeError, s) \<and>
            hcvcone w s kw ra dec radius table release format magtype columns baseurl =
              (raise TypeError, s))"
proof (intro conjI impI)
  assume keys: "''ra'' \<notin> set (map fst (s ! kw)) \<and> ''dec'' \<notin> set (map fst (s ! kw)) \<and>
          ''radius'' \<notin> set (map fst (s ! kw))"
  then have k: "''ra'' \<notin> set (map fst (s ! kw))" "''dec'' \<notin> set (map fst (s ! kw))"
    "''radius'' \<notin> set (map fst (s ! kw))"
    by simp_all
  have data: "AList.update ''radius'' radius
                (AList.update ''dec'' dec (AList.update ''ra'' ra (s ! kw))) =
              s ! kw @ [(''ra'', ra), (''dec'', dec), (''radius'', radius)]"
    by (rule cone_data [OF k])
  have m: "map_of (s ! kw @ [(''ra'', ra), (''dec'', dec), (''radius'', radius)]) =
           (map_of (s ! kw))(''ra'' \<mapsto> ra, ''dec'' \<mapsto> dec, ''radius'' \<mapsto> radius)"
    unfolding data [symmetric] by (simp add: update_conv')
  note hsc = hsccone_eq [OF k, of w ra dec radius table release format magtype columns baseurl,
      unfolded data]
  note hcv = hcvcone_eq [OF k, of w ra dec radius table release format magtype columns baseurl,
      unfolded data]
  show "let data = s ! kw @ [(''ra'', ra), (''dec'', dec), (''radius'', radius)]
        in hsccone w s kw ra dec radius table release format magtype columns baseurl =
             (hscsearch w table release magtype format columns baseurl data, s @ [data]) \<and>
           hcvcone w s kw ra dec radius table release format magtype columns baseurl =
             (hcvsearch w table release magtype format columns baseurl data, s @ [data]) \<and>
           data = AList.update ''radius'' radius
                    (AList.update ''dec'' dec (AList.update ''ra'' ra (s ! kw))) \<and>
           map_of data =
             (map_of (s ! kw))(''ra'' \<mapsto> ra, ''dec'' \<mapsto> dec, ''radius'' \<mapsto> radius)"
    unfolding Let_def using hsc hcv data m by simp
  show "snd (hsccone w s kw ra dec radius table release format magtype columns baseurl) ! kw =
          s ! kw"
    using assms by (simp add: hsc nth_append)
  show "snd (hcvcone w s kw ra dec radius table release format magtype columns baseurl) ! kw =
          s ! kw"
    using assms by (simp add: hcv nth_append)
  show "take (length s)
          (snd (hsccone w s kw ra dec radius table release format magtype columns baseurl)) = s"
    by (simp add: hsc)
  show "take (length s)
          (snd (hcvcone w s kw ra dec radius table release format magtype columns baseurl)) = s"
    by (simp add: hcv)
next
  assume "''ra'' \<in> set (map fst (s ! kw)) \<or> ''dec'' \<in> set (map fst (s ! kw)) \<or>
          ''radius'' \<in> set (map fst (s ! kw))"
  then show "hsccone w s kw ra dec radius table release format magtype columns baseurl =
              (raise TypeError, s)"
    and "hcvcone w s kw ra dec radius table release format magtype columns baseurl =
              (raise TypeError, s)"
    by (rule cone_TypeError)+
qed

theorem cone_search_extends_filters_witness:
  "(0::nat) < length [[(''numimages.gte'', PyInt 2)]] \<and>
   ''ra'' \<notin> set (map fst ([[(''numimages.gte'', PyInt 2)]] ! 0)) \<and>
   ''dec'' \<notin> set (map fst ([[(''numimages.gte'', PyInt 2)]] ! 0)) \<and>
   ''radius'' \<notin> set (map fst ([[(''numimages.gte'', PyInt 2)]] ! 0)) \<and>
   hsccone example_world [[(''numimages.gte'', PyInt 2)]] 0
     (PyFloat 10) (PyFloat 20) (PyFloat 0.5) ''summary'' ''v3'' ''csv'' ''magaper2'' None
     hscapiurl =
     (hscsearch example_world ''summary'' ''v3'' ''magaper2'' ''csv'' None hscapiurl
        [(''numimages.gte'', PyInt 2), (''ra'', PyFloat 10), (''dec'', PyFloat 20),
         (''radius'', PyFloat 0.5)],
      [[(''numimages.gte'', PyInt 2)],
       [(''numimages.gte'', PyInt 2), (''ra'', PyFloat 10), (''dec'', PyFloat 20),
        (''radius'', PyFloat 0.5)]]) \<and>
   hcvcone example_world [[(''numimages.gte'', PyInt 2)]] 0
     (PyFloat 10) (PyFloat 20) (PyFloat 0.5) ''hcvsummary'' ''v3'' ''csv'' ''magaper2'' None
     hscapiurl =
     (hcvsearch example_world ''hcvsummary'' ''v3'' ''magaper2'' ''csv'' None hscapiurl
        [(''numimages.gte'', PyInt 2), (''ra'', PyFloat 10), (''dec'', PyFloat 20),
         (''radius'', PyFloat 0.5)],
      [[(''numimages.gte'', PyInt 2)],
       [(''numimages.gte'', PyInt 2), (''ra'', PyFloat 10), (''dec'', PyFloat 20),
        (''radius'', PyFloat 0.5)]]) \<and>
   snd (hsccone example_world [[(''numimages.gte'', PyInt 2)]] 0
          (PyFloat 10) (PyFloat 20) (PyFloat 0.5) ''summary'' ''v3'' ''csv'' ''magaper2'' None
          hscapiurl) ! 0 =
     [(''numimages.gte'', PyInt 2)] \<and>
   (0::nat) < length [[(''dec'', PyFloat 7)]] \<and>
   ''dec'' \<in> set (map fst ([[(''dec'', PyFloat 7)]] ! 0)) \<and>
   hcvcone example_world [[(''dec'', PyFloat 7)]] 0
     (PyFloat 10) (PyFloat 20) (PyFloat 0.5) ''hcvsummary'' ''v3'' ''csv'' ''magaper2'' None
     hscapiurl = (raise TypeError, [[(''dec'', PyFloat 7)]])"
proof -
  have live: "(0::nat) < length [[(''numimages.gte'', PyInt 2)]]"
    by simp
  have live': "(0::nat) < length [[(''dec'', PyFloat 7)]]"
    by simp
  have a: "hsccone example_world [[(''numimages.gte'', PyInt 2)]] 0
     (PyFloat 10) (PyFloat 20) (PyFloat 0.5) ''summary'' ''v3'' ''csv'' ''magaper2'' None
     hscapiurl =
     (hscsearch example_world ''summary'' ''v3'' ''magaper2'' ''csv'' None hscapiurl
        [(''numimages.gte'', PyInt 2), (''ra'', PyFloat 10), (''dec'', PyFloat 20),
         (''radius'', PyFloat 0.5)],
      [[(''numimages.gte'', PyInt 2)],
       [(''numimages.gte'', PyInt 2), (''ra'', PyFloat 10), (''dec'', PyFloat 20),
        (''radius'', PyFloat 0.5)]])"
    using cone_search_extends_filters [OF live, where ra = "PyFloat 10" and dec = "PyFloat 20"
        and radius = "PyFloat 0.5" and w = example_world and table = "''summary''"
        and release = "''v3''" and format = "''csv''" and magtype = "''magaper2''"
        and columns = None and baseurl = hscapiurl, THEN conjunct1]
    by (simp add: Let_def)
  have b: "hcvcone example_world [[(''numimages.gte'', PyInt 2)]] 0
     (PyFloat 10) (PyFloat 20) (PyFloat 0.5) ''hcvsummary'' ''v3'' ''csv'' ''magaper2'' None
     hscapiurl =
     (hcvsearch example_world ''hcvsummary'' ''v3'' ''magaper2'' ''csv'' None hscapiurl
        [(''numimages.gte'', PyInt 2), (''ra'', PyFloat 10), (''dec'', PyFloat 20),
         (''radius'', PyFloat 0.5)],
      [[(''numimages.gte'', PyInt 2)],
       [(''numimages.gte'', PyInt 2), (''ra'', PyFloat 10), (''dec'', PyFloat 20),
        (''radius'', PyFloat 0.5)]])"
    using cone_search_extends_filters [OF live, where ra = "PyFloat 10" and dec = "PyFloat 20"
        and radius = "PyFloat 0.5" and w = example_world and table = "''hcvsummary''"
        and release = "''v3''" and format = "''csv''" and magtype = "''magaper2''"
        and columns = None and baseurl = hscapiurl, THEN conjunct1]
    by (simp add: Let_def)
  have c: "hcvcone example_world [[(''dec'', PyFloat 7)]] 0
     (PyFloat 10) (PyFloat 20) (PyFloat 0.5) ''hcvsummary'' ''v3'' ''csv'' ''magaper2'' None
     hscapiurl = (raise TypeError, [[(''dec'', PyFloat 7)]])"
    using cone_search_extends_filters [OF live', where ra = "PyFloat 10" and dec = "PyFloat 20"
        and radius = "PyFloat 0.5" and w = example_world and table = "''hcvsummary''"
        and release = "''v3''" and format = "''csv''" and magtype = "''magaper2''"
        and columns = None and baseurl = hscapiurl, THEN conjunct2]
    by simp
  show ?thesis
    using a b c by simp
qed

text \<open>
  C10. The lowercased and stripped form of a requested column is used for validation
  only. When every requested column passes, the search goes on as a search without a
  column list whose filters have the key \<^verbatim>\<open>columns\<close> set to the requested
  strings themselves, joined by commas between brackets: their case and their
  surrounding white space are kept.
\<close>

theorem columns_serialized_unchanged:
  assumes "kw \<noteq> []" and "format \<in> set [''csv'', ''votable'', ''json'', ''table'']"
    and "cat2url table release magtype baseurl = Inr base"
    and "cols \<noteq> []"
    and "hscmetadata w table release magtype hscapiurl lg = (Inr tab, lg1)"
    and "map fst tab = map JStr names"
    and "\<forall>col \<in> set cols. strip (lower col) \<in> set (map lower names)"
  shows "hscsearch w table release magtype format (Some cols) baseurl kw lg =
           hscsearch w table release magtype format None baseurl
             (AList.update ''columns'' (PyStr (''['' @ join '','' cols @ '']'')) kw) lg1 \<and>
         last (snd (hscsearch w table release magtype format (Some cols) baseurl kw lg)) =
           \<lparr>req_url = base @ ''.'' @ (if format = ''table'' then ''csv'' else format),
            req_params = AList.update ''columns'' (PyStr (''['' @ join '','' cols @ '']'')) kw\<rparr> \<and>
         map_of (req_params
                   (last (snd (hscsearch w table release magtype format (Some cols) baseurl
                                 kw lg)))) ''columns'' =
           Some (PyStr (''['' @ join '','' cols @ '']''))"
proof -
  from assms(7) have good: "[col \<leftarrow> cols. strip (lower col) \<notin> set (map lower names)] = []"
    by (simp add: filter_empty_conv)
  have eq: "hscsearch w table release magtype format (Some cols) baseurl kw lg =
           hscsearch w table release magtype format None baseurl
             (AList.update ''columns'' (PyStr (''['' @ join '','' cols @ '']'')) kw) lg1"
    by (rule hscsearch_known_columns [OF assms(1-6) good])
  have "snd (hscsearch w table release magtype format None baseurl
             (AList.update ''columns'' (PyStr (''['' @ join '','' cols @ '']'')) kw) lg1) =
        lg1 @ [\<lparr>req_url = base @ ''.'' @ (if format = ''table'' then ''csv'' else format),
            req_params = AList.update ''columns'' (PyStr (''['' @ join '','' cols @ '']'')) kw\<rparr>]"
    by (rule hscsearch_plain_outcome(2) [OF _ assms(2,3)]) simp_all
  then have l: "last (snd (hscsearch w table release magtype format (Some cols) baseurl kw lg)) =
           \<lparr>req_url = base @ ''.'' @ (if format = ''table'' then ''csv'' else format),
            req_params = AList.update ''columns'' (PyStr (''['' @ join '','' cols @ '']'')) kw\<rparr>"
    by (simp add: eq)
  show ?thesis
    by (simp only: l, simp add: eq update_conv')
qed

theorem columns_serialized_unchanged_witness:
  "[(''ra'', PyFloat 1)] \<noteq> [] \<and>
   ''csv'' \<in> set [''csv'', ''votable'', ''json'', ''table''] \<and>
   cat2url ''summary'' ''v3'' ''magaper2'' ''B'' = Inr ''B/v3/summary/magaper2'' \<and>
   strip (lower '' MatchId '') \<in> set (map lower [''MatchID'', ''MatchRA'']) \<and>
   strip (lower ''matchRA'') \<in> set (map lower [''MatchID'', ''MatchRA'']) \<and>
   last (snd (hscsearch example_world ''summary'' ''v3'' ''magaper2'' ''csv''
          (Some ['' MatchId '', ''matchRA'']) ''B'' [(''ra'', PyFloat 1)] [])) =
      \<lparr>req_url = ''B/v3/summary/magaper2.csv'',
       req_params = [(''ra'', PyFloat 1), (''columns'', PyStr ''[ MatchId ,matchRA]'')]\<rparr>"
proof -
  have kw: "[(''ra'', PyFloat 1)] \<noteq> []"
    by simp
  have fmt: "''csv'' \<in> set [''csv'', ''votable'', ''json'', ''table'']"
    by simp
  have base: "cat2url ''summary'' ''v3'' ''magaper2'' ''B'' = Inr ''B/v3/summary/magaper2''"
    by (simp add: cat2url_def checklegal_def)
  have names: "map fst [(JStr ''MatchID'', JStr ''long'', JStr ''identifier of the match''),
           (JStr ''MatchRA'', JStr ''float'', JStr ''right ascension of the match'')] =
        map JStr [''MatchID'', ''MatchRA'']"
    by simp
  have cols: "['' MatchId '', ''matchRA''] \<noteq> []"
    by simp
  have good: "\<forall>col \<in> set ['' MatchId '', ''matchRA''].
      strip (lower col) \<in> set (map lower [''MatchID'', ''MatchRA''])"
    by (simp add: lower_def lower_char_def strip_def isspace_def)
  have "last (snd (hscsearch example_world ''summary'' ''v3'' ''magaper2'' ''csv''
          (Some ['' MatchId '', ''matchRA'']) ''B'' [(''ra'', PyFloat 1)] [])) =
      \<lparr>req_url = ''B/v3/summary/magaper2.csv'',
       req_params = [(''ra'', PyFloat 1), (''columns'', PyStr ''[ MatchId ,matchRA]'')]\<rparr>"
    using columns_serialized_unchanged [OF kw fmt base cols example_metadata_ok names good,
        THEN conjunct2, THEN conjunct1]
    by simp
  with kw fmt base good show ?thesis
    by simp
qed

end
